theory Spec2Isabelle
  imports Complex_Main
begin

section \<open>Data model\<close>

text \<open>
  The geometry processor (class \<open>GeometryProcessor\<close>) owns two arrays, \<open>vertices\<close> and
  \<open>faces\<close>, that its methods extend in place.  A ring point is a pair of JavaScript
  numbers, a vertex a triple, a face an array of vertex indices.  Numbers are modelled by
  the reals (no rounding, no NaN), indices by the integers, and each method by a function
  from the mesh before the call to the mesh after it.
\<close>

type_synonym point = "real \<times> real"
type_synonym vertex = "real \<times> real \<times> real"
type_synonym face = "int list"

record mesh =
  vertices :: "vertex list"
  faces :: "face list"

section \<open>Mesh arena\<close>

text \<open>
  \<open>createSolidBase\<close> builds a fresh mesh; it reads and writes nothing of the processor.
\<close>

definition createSolidBase :: "real \<Rightarrow> real \<Rightarrow> mesh" where
  "createSolidBase baseSize baseThickness =
     \<lparr> vertices =
         [(0, 0, 0),
          (baseSize, 0, 0),
          (baseSize, baseSize, 0),
          (0, baseSize, 0),
          (0, 0, baseThickness),
          (baseSize, 0, baseThickness),
          (baseSize, baseSize, baseThickness),
          (0, baseSize, baseThickness)],
       faces =
         [[0, 1, 5], [0, 5, 4],
          [1, 2, 6], [1, 6, 5],
          [2, 3, 7], [2, 7, 6],
          [3, 0, 4], [3, 4, 7],
          [4, 5, 6], [4, 6, 7],
          [0, 1, 2], [0, 2, 3]] \<rparr>"

text \<open>
  The expression every ring consumer starts with: drop the last point when it repeats the
  first one (\<open>coords.slice(0, -1)\<close>), otherwise keep the array.
\<close>

definition cleanCoords :: "point list \<Rightarrow> point list" where
  "cleanCoords coords =
     (if length coords > 0
         \<and> fst (coords ! 0) = fst (coords ! (length coords - 1))
         \<and> snd (coords ! 0) = snd (coords ! (length coords - 1))
      then butlast coords
      else coords)"

text \<open>The two vertices pushed for one ring point by the simple prism builder.\<close>

definition verticalPair :: "real \<Rightarrow> real \<Rightarrow> point \<Rightarrow> vertex list" where
  "verticalPair z0 z1 p = [(fst p, snd p, z0), (fst p, snd p, z1)]"

text \<open>Body of the side-face loop of \<open>addPrismFromPolygon\<close> at index \<open>i\<close>.\<close>

definition sideFaces :: "int \<Rightarrow> nat \<Rightarrow> nat \<Rightarrow> face list" where
  "sideFaces baseIndex n i =
     (let iNext = (i + 1) mod n;
          b1 = baseIndex + 2 * int i;
          t1 = baseIndex + 2 * int i + 1;
          b2 = baseIndex + 2 * int iNext;
          t2 = baseIndex + 2 * int iNext + 1
      in [[b1, b2, t1], [t1, b2, t2]])"

text \<open>Body of the cap loop of \<open>addPrismFromPolygon\<close> at index \<open>i\<close>.\<close>

definition capFaces :: "int \<Rightarrow> int \<Rightarrow> nat \<Rightarrow> face list" where
  "capFaces bottomStart topStart i =
     [[bottomStart, bottomStart + 2 * (int i + 1), bottomStart + 2 * int i],
      [topStart, topStart + 2 * int i, topStart + 2 * (int i + 1)]]"

definition addPrismFromPolygon :: "point list \<Rightarrow> real \<Rightarrow> real \<Rightarrow> mesh \<Rightarrow> mesh" where
  "addPrismFromPolygon coords z0 z1 m =
     (if length coords < 3 then m
      else
        let cc = cleanCoords coords;
            n = length cc
        in if n > 500 then m
           else
             let baseIndex = int (length (vertices m));
                 topStart = baseIndex + 1;
                 bottomStart = baseIndex
             in m \<lparr> vertices := vertices m @ concat (map (verticalPair z0 z1) cc),
                     faces := faces m
                        @ concat (map (sideFaces baseIndex n) [0..<n])
                        @ concat (map (capFaces bottomStart topStart) [1..<n - 1]) \<rparr>)"

text \<open>
  \<open>triangulatePolygon\<close> guards on the raw length, cleans the ring, guards again on the
  cleaned length and returns the fan anchored at index 0.  A triangle is the three-element
  array \<open>[0, i, i + 1]\<close>, modelled as a triple.
\<close>

type_synonym triangle = "int \<times> int \<times> int"

definition triangulatePolygon :: "point list \<Rightarrow> triangle list" where
  "triangulatePolygon coords =
     (if length coords < 3 \<or> length coords > 1000 then []
      else
        let cc = cleanCoords coords
        in if length cc < 3 \<or> length cc > 1000 then []
           else map (\<lambda>i. (0, int i, int i + 1)) [1..<length cc - 1])"

text \<open>Body of the wall loop of \<open>addPrismFromPolygonTriangulated\<close> at index \<open>i\<close>.\<close>

definition wallFaces :: "int \<Rightarrow> int \<Rightarrow> nat \<Rightarrow> nat \<Rightarrow> face list" where
  "wallFaces bottomStart topStart n i =
     (let j = (i + 1) mod n;
          b1 = bottomStart + int i;
          t1 = topStart + int i;
          b2 = bottomStart + int j;
          t2 = topStart + int j
      in [[b1, b2, t1], [t1, b2, t2]])"

text \<open>The two cap faces pushed for one triangle \<open>tri\<close> of the triangulation.\<close>

definition triFaces :: "int \<Rightarrow> int \<Rightarrow> triangle \<Rightarrow> face list" where
  "triFaces bottomStart topStart tri =
     (case tri of (tri0, tri1, tri2) \<Rightarrow>
        [[bottomStart + tri0, bottomStart + tri2, bottomStart + tri1],
         [topStart + tri0, topStart + tri1, topStart + tri2]])"

definition addPrismFromPolygonTriangulated ::
    "point list \<Rightarrow> real \<Rightarrow> real \<Rightarrow> mesh \<Rightarrow> mesh" where
  "addPrismFromPolygonTriangulated coords z0 z1 m =
     (if length coords < 3 \<or> length coords > 1000 then m
      else
        let cc = cleanCoords coords
        in if length cc < 3 \<or> length cc > 1000 then m
           else
             let n = length cc;
                 triangles = triangulatePolygon cc
             in if length triangles = 0 then m
                else
                  let bottomStart = int (length (vertices m));
                      bottom = map (\<lambda>p. (fst p, snd p, z0)) cc;
                      topStart = int (length (vertices m @ bottom));
                      top = map (\<lambda>p. (fst p, snd p, z1)) cc
                  in m \<lparr> vertices := vertices m @ bottom @ top,
                          faces := faces m
                             @ concat (map (triFaces bottomStart topStart) triangles)
                             @ concat (map (wallFaces bottomStart topStart n) [0..<n]) \<rparr>)"

text \<open>The constructor and \<open>reset\<close> both leave the two arrays empty.\<close>

definition emptyMesh :: mesh where
  "emptyMesh = \<lparr> vertices = [], faces = [] \<rparr>"

text \<open>
  How \<open>scaleCoordinates\<close> puts the base plate into the arena: it pushes the vertices and
  the faces of the fresh base mesh onto the two arrays, which it has just emptied.
\<close>

definition pushSolidBase :: "real \<Rightarrow> real \<Rightarrow> mesh \<Rightarrow> mesh" where
  "pushSolidBase baseSize baseThickness m =
     (let base = createSolidBase baseSize baseThickness
      in m \<lparr> vertices := vertices m @ vertices base, faces := faces m @ faces base \<rparr>)"

section \<open>Face-index invariant\<close>

text \<open>
  The invariant of the data model: every face has exactly three indices, each less than
  the number of vertices.  Indices are integers here, so that an index is also a valid
  array position only when it is not negative; that half is kept as a second predicate.
\<close>

definition faceIndexInvariant :: "mesh \<Rightarrow> bool" where
  "faceIndexInvariant m \<longleftrightarrow>
     (\<forall>f \<in> set (faces m). length f = 3 \<and> (\<forall>i \<in> set f. i < int (length (vertices m))))"

definition noNegativeIndex :: "mesh \<Rightarrow> bool" where
  "noNegativeIndex m \<longleftrightarrow> (\<forall>f \<in> set (faces m). \<forall>i \<in> set f. 0 \<le> i)"

text \<open>
  A list of faces that all have three indices inside the vertex block \<open>[lo, hi)\<close>: what one
  call of a prism builder appends.
\<close>

definition blockFaces :: "int \<Rightarrow> int \<Rightarrow> face list \<Rightarrow> bool" where
  "blockFaces lo hi fs \<longleftrightarrow> (\<forall>f \<in> set fs. length f = 3 \<and> (\<forall>i \<in> set f. lo \<le> i \<and> i < hi))"

text \<open>A sequence of calls on one arena, in the order they are made.\<close>

datatype arenaCall =
    PushSolidBase real real
  | AddPrism "point list" real real
  | AddPrismTriangulated "point list" real real

fun arenaStep :: "arenaCall \<Rightarrow> mesh \<Rightarrow> mesh" where
  "arenaStep (PushSolidBase baseSize baseThickness) m = pushSolidBase baseSize baseThickness m"
| "arenaStep (AddPrism coords z0 z1) m = addPrismFromPolygon coords z0 z1 m"
| "arenaStep (AddPrismTriangulated coords z0 z1) m = addPrismFromPolygonTriangulated coords z0 z1 m"

section \<open>Numbers of the language\<close>

text \<open>
  Where a result depends on the arithmetic, a number is an IEEE 754 double: a finite
  value, one of the two infinities, or NaN.  A finite number carries the real it denotes;
  the two zeros are not told apart (no modelled division has a zero divisor: the line
  bufferer skips a tangent shorter than \<open>1e-10\<close>, the height scale divides by a positive
  maximum, and the caller excludes an empty coordinate range).  Every operation computes
  the exact result and rounds it once to the nearest double, to the even one on a tie,
  and to an infinity from \<open>2^1024 - 2^970\<close> on.
\<close>

datatype num64 = Fin real | PInf | NInf | NaN

definition pow2 :: "int \<Rightarrow> real" where
  "pow2 k = (if 0 \<le> k then 2 ^ nat k else 1 / 2 ^ nat (- k))"

definition roundHalfEven :: "real \<Rightarrow> int" where
  "roundHalfEven q =
     (let f = \<lfloor>q\<rfloor>
      in if q - of_int f < 1 / 2 then f
         else if q - of_int f > 1 / 2 then f + 1
         else if even f then f else f + 1)"

text \<open>
  The double nearest to a real: with exponent \<open>e\<close>, at least \<open>-1022\<close>, the spacing of the
  doubles around it is \<open>2^(e - 52)\<close>.
\<close>

definition round64 :: "real \<Rightarrow> num64" where
  "round64 x =
     (if x = 0 then Fin 0
      else
        let a = \<bar>x\<bar>;
            e = max \<lfloor>log 2 a\<rfloor> (- 1022);
            u = pow2 (e - 52);
            r = of_int (roundHalfEven (a / u)) * u
        in if r \<ge> 2 ^ 1024 then (if x > 0 then PInf else NInf)
           else Fin (if x > 0 then r else - r))"

fun fneg :: "num64 \<Rightarrow> num64" where
  "fneg (Fin a) = Fin (- a)"
| "fneg PInf = NInf"
| "fneg NInf = PInf"
| "fneg NaN = NaN"

fun fadd :: "num64 \<Rightarrow> num64 \<Rightarrow> num64" where
  "fadd (Fin a) (Fin b) = round64 (a + b)"
| "fadd NaN y = NaN"
| "fadd x NaN = NaN"
| "fadd PInf NInf = NaN"
| "fadd NInf PInf = NaN"
| "fadd PInf y = PInf"
| "fadd NInf y = NInf"
| "fadd x PInf = PInf"
| "fadd x NInf = NInf"

definition fsub :: "num64 \<Rightarrow> num64 \<Rightarrow> num64" where
  "fsub x y = fadd x (fneg y)"

text \<open>The infinity with the sign of a product or quotient of two signs.\<close>

definition infinity :: "bool \<Rightarrow> num64" where
  "infinity positive = (if positive then PInf else NInf)"

fun fmul :: "num64 \<Rightarrow> num64 \<Rightarrow> num64" where
  "fmul (Fin a) (Fin b) = round64 (a * b)"
| "fmul NaN y = NaN"
| "fmul x NaN = NaN"
| "fmul (Fin a) PInf = (if a = 0 then NaN else infinity (a > 0))"
| "fmul (Fin a) NInf = (if a = 0 then NaN else infinity (a < 0))"
| "fmul PInf (Fin b) = (if b = 0 then NaN else infinity (b > 0))"
| "fmul NInf (Fin b) = (if b = 0 then NaN else infinity (b < 0))"
| "fmul PInf PInf = PInf"
| "fmul PInf NInf = NInf"
| "fmul NInf PInf = NInf"
| "fmul NInf NInf = PInf"

fun fdiv :: "num64 \<Rightarrow> num64 \<Rightarrow> num64" where
  "fdiv (Fin a) (Fin b) =
     (if b = 0 then (if a = 0 then NaN else infinity (a > 0)) else round64 (a / b))"
| "fdiv NaN y = NaN"
| "fdiv x NaN = NaN"
| "fdiv (Fin a) PInf = Fin 0"
| "fdiv (Fin a) NInf = Fin 0"
| "fdiv PInf (Fin b) = infinity (b \<ge> 0)"
| "fdiv NInf (Fin b) = infinity (b < 0)"
| "fdiv x y = NaN"

fun fsqrt :: "num64 \<Rightarrow> num64" where
  "fsqrt (Fin a) = (if a < 0 then NaN else round64 (sqrt a))"
| "fsqrt PInf = PInf"
| "fsqrt NInf = NaN"
| "fsqrt NaN = NaN"

text \<open>The comparison \<open><\<close>, false as soon as one side is NaN.\<close>

fun flt :: "num64 \<Rightarrow> num64 \<Rightarrow> bool" where
  "flt (Fin a) (Fin b) = (a < b)"
| "flt NaN y = False"
| "flt x NaN = False"
| "flt x NInf = False"
| "flt PInf y = False"
| "flt NInf y = True"
| "flt x PInf = True"

text \<open>Strict equality \<open>===\<close>: NaN is equal to nothing, not even to itself.\<close>

definition feq :: "num64 \<Rightarrow> num64 \<Rightarrow> bool" where
  "feq x y \<longleftrightarrow> x \<noteq> NaN \<and> x = y"

text \<open>\<open>Math.max\<close> of two numbers: NaN if one of them is.\<close>

definition fmax :: "num64 \<Rightarrow> num64 \<Rightarrow> num64" where
  "fmax x y = (if x = NaN \<or> y = NaN then NaN else if flt x y then y else x)"

section \<open>Line bufferer\<close>

text \<open>
  \<open>bufferLineString\<close> works on points whose coordinates are doubles, in the arithmetic of
  the language.  It returns no quadrilateral for fewer than two points.  The tangent at
  index \<open>i\<close> is the next segment at the first point, the previous segment at the last
  point and the mean of both in between.
\<close>

type_synonym fpoint = "num64 \<times> num64"

definition tangent :: "fpoint list \<Rightarrow> nat \<Rightarrow> fpoint" where
  "tangent coords i =
     (if i = 0 then
        (fsub (fst (coords ! 1)) (fst (coords ! 0)), fsub (snd (coords ! 1)) (snd (coords ! 0)))
      else if i = length coords - 1 then
        (fsub (fst (coords ! i)) (fst (coords ! (i - 1))),
         fsub (snd (coords ! i)) (snd (coords ! (i - 1))))
      else
        let dx1 = fsub (fst (coords ! i)) (fst (coords ! (i - 1)));
            dy1 = fsub (snd (coords ! i)) (snd (coords ! (i - 1)));
            dx2 = fsub (fst (coords ! (i + 1))) (fst (coords ! i));
            dy2 = fsub (snd (coords ! (i + 1))) (snd (coords ! i))
        in (fdiv (fadd dx1 dx2) (Fin 2), fdiv (fadd dy1 dy2) (Fin 2)))"

definition tangentLength :: "fpoint list \<Rightarrow> nat \<Rightarrow> num64" where
  "tangentLength coords i =
     (case tangent coords i of (dx, dy) \<Rightarrow> fsqrt (fadd (fmul dx dx) (fmul dy dy)))"

text \<open>
  One round of the first loop: nothing for a tangent shorter than \<open>1e-10\<close> (\<open>continue\<close>),
  otherwise the point pushed to \<open>left\<close> paired with the point pushed to \<open>right\<close>.
\<close>

definition offsetPair :: "fpoint list \<Rightarrow> num64 \<Rightarrow> nat \<Rightarrow> (fpoint \<times> fpoint) list" where
  "offsetPair coords halfWidth i =
     (case tangent coords i of (dx, dy) \<Rightarrow>
        let len = tangentLength coords i
        in if flt len (round64 (1 / 10 ^ 10)) then []
           else
             let perpX = fmul (fdiv (fneg dy) len) halfWidth;
                 perpY = fmul (fdiv dx len) halfWidth
             in [((fadd (fst (coords ! i)) perpX, fadd (snd (coords ! i)) perpY),
                  (fsub (fst (coords ! i)) perpX, fsub (snd (coords ! i)) perpY))])"

definition bufferLineString :: "fpoint list \<Rightarrow> num64 \<Rightarrow> fpoint list list" where
  "bufferLineString coords width =
     (if length coords < 2 then []
      else
        let halfWidth = fdiv width (Fin 2);
            sides = concat (map (offsetPair coords halfWidth) [0..<length coords]);
            left = map fst sides;
            right = map snd sides
        in map (\<lambda>i. [left ! i, right ! i, right ! (i + 1), left ! (i + 1)])
             [0..<length left - 1])"

text \<open>
  The number of points that pass the length test, the length of \<open>left\<close> after the first
  loop.
\<close>

definition leftCount :: "fpoint list \<Rightarrow> nat" where
  "leftCount coords =
     length (filter (\<lambda>i. \<not> flt (tangentLength coords i) (round64 (1 / 10 ^ 10)))
       [0..<length coords])"

text \<open>The Euclidean distance of two points of the plane.\<close>

definition distance :: "point \<Rightarrow> point \<Rightarrow> real" where
  "distance p q = sqrt ((fst p - fst q)\<^sup>2 + (snd p - snd q)\<^sup>2)"

section \<open>STL serializer and validator\<close>

text \<open>
  Class \<open>STLGenerator\<close>.  Reading \<open>vertices[i]\<close> outside the array gives \<open>undefined\<close>, and
  reading a component of \<open>undefined\<close> throws a \<open>TypeError\<close> that nothing in the serializer
  catches; the model returns it as a value.
\<close>

datatype jsError = TypeError

definition vertexAt :: "vertex list \<Rightarrow> int \<Rightarrow> vertex option" where
  "vertexAt vs i = (if 0 \<le> i \<and> i < int (length vs) then Some (vs ! nat i) else None)"

subsection \<open>Number formatting\<close>

text \<open>
  \<open>formatNum\<close> is \<open>n.toFixed(6)\<close>, a built-in of the language: for a magnitude below
  \<open>10^21\<close> it takes the integer \<open>n\<close> closest to \<open>|x| * 10^6\<close> (the larger one on a tie),
  writes its decimal digits, pads them with zeros to at least seven and puts the point
  before the last six; from \<open>10^21\<close> on it falls back to the general number-to-string
  conversion, which is left as the parameter \<open>numberToString\<close>.
\<close>

definition isDigit :: "char \<Rightarrow> bool" where
  "isDigit c \<longleftrightarrow> c \<in> set ''0123456789''"

definition digitChar :: "nat \<Rightarrow> char" where
  "digitChar d = ''0123456789'' ! d"

fun decimal :: "nat \<Rightarrow> string" where
  "decimal n = (if n < 10 then [digitChar n] else decimal (n div 10) @ [digitChar (n mod 10)])"

declare decimal.simps [simp del]

definition toFixed6 :: "(real \<Rightarrow> string) \<Rightarrow> real \<Rightarrow> string" where
  "toFixed6 numberToString x =
     (let s = (if x < 0 then ''-'' else '''');
          a = \<bar>x\<bar>
      in if a \<ge> 10 ^ 21 then s @ numberToString a
         else
           let n = nat \<lfloor>a * 10 ^ 6 + 1 / 2\<rfloor>;
               m = decimal n;
               k = length m;
               m = (if k \<le> 6 then replicate (6 + 1 - k) (CHR ''0'') @ m else m);
               k = (if k \<le> 6 then 6 + 1 else k)
           in s @ take (k - 6) m @ ''.'' @ drop (k - 6) m)"

subsection \<open>Serializer\<close>

text \<open>\<open>filename.replace('.stl', '')\<close>: a string pattern replaces its first occurrence only.\<close>

fun replaceFirst :: "string \<Rightarrow> string \<Rightarrow> string \<Rightarrow> string" where
  "replaceFirst pat rep [] = (if pat = [] then rep else [])"
| "replaceFirst pat rep (c # cs) =
     (if take (length pat) (c # cs) = pat then rep @ drop (length pat) (c # cs)
      else c # replaceFirst pat rep cs)"

text \<open>The normal computed for one face from its three vertex positions.\<close>

definition faceNormal :: "vertex \<Rightarrow> vertex \<Rightarrow> vertex \<Rightarrow> vertex" where
  "faceNormal v0 v1 v2 =
     (case (v0, v1, v2) of ((x0, y0, z0), (x1, y1, z1), (x2, y2, z2)) \<Rightarrow>
        let e1 = (x1 - x0, y1 - y0, z1 - z0);
            e2 = (x2 - x0, y2 - y0, z2 - z0)
        in case (e1, e2) of ((e10, e11, e12), (e20, e21, e22)) \<Rightarrow>
             let n0 = e11 * e22 - e12 * e21;
                 n1 = e12 * e20 - e10 * e22;
                 n2 = e10 * e21 - e11 * e20;
                 len = sqrt (n0 * n0 + n1 * n1 + n2 * n2)
             in if len > 1 / 10 ^ 10 then (n0 / len, n1 / len, n2 / len) else (0, 0, 1))"

text \<open>The seven lines appended for one face, given its normal and its three vertices.\<close>

definition facetLines :: "(real \<Rightarrow> string) \<Rightarrow> vertex \<Rightarrow> vertex \<Rightarrow> vertex \<Rightarrow> vertex \<Rightarrow> string" where
  "facetLines formatNum normal v0 v1 v2 =
     (case (normal, v0, v1, v2) of ((nx, ny, nz), (x0, y0, z0), (x1, y1, z1), (x2, y2, z2)) \<Rightarrow>
        ''  facet normal '' @ formatNum nx @ '' '' @ formatNum ny @ '' '' @ formatNum nz @ [CHR 0x0A]
        @ ''    outer loop'' @ [CHR 0x0A]
        @ ''      vertex '' @ formatNum x0 @ '' '' @ formatNum y0 @ '' '' @ formatNum z0 @ [CHR 0x0A]
        @ ''      vertex '' @ formatNum x1 @ '' '' @ formatNum y1 @ '' '' @ formatNum z1 @ [CHR 0x0A]
        @ ''      vertex '' @ formatNum x2 @ '' '' @ formatNum y2 @ '' '' @ formatNum z2 @ [CHR 0x0A]
        @ ''    endloop'' @ [CHR 0x0A]
        @ ''  endfacet'' @ [CHR 0x0A])"

text \<open>
  The body of \<open>faces.forEach\<close> for one face: the text it appends to \<open>stlContent\<close>, nothing
  for a face that does not have three indices, or the error it throws.
\<close>

definition facet :: "(real \<Rightarrow> string) \<Rightarrow> vertex list \<Rightarrow> face \<Rightarrow> jsError + string" where
  "facet numberToString vs face =
     (if length face \<noteq> 3 then Inr []
      else
        case (vertexAt vs (face ! 0), vertexAt vs (face ! 1), vertexAt vs (face ! 2)) of
          (Some v0, Some v1, Some v2) \<Rightarrow>
             Inr (facetLines (toFixed6 numberToString) (faceNormal v0 v1 v2) v0 v1 v2)
        | _ \<Rightarrow> Inl TypeError)"

text \<open>The loop over the faces, with \<open>stlContent\<close> as accumulator; it ends at the first throw.\<close>

fun facets :: "(real \<Rightarrow> string) \<Rightarrow> vertex list \<Rightarrow> face list \<Rightarrow> string \<Rightarrow> jsError + string" where
  "facets numberToString vs [] stlContent = Inr stlContent"
| "facets numberToString vs (face # rest) stlContent =
     (case facet numberToString vs face of
        Inl e \<Rightarrow> Inl e
      | Inr text \<Rightarrow> facets numberToString vs rest (stlContent @ text))"

definition generateSTL ::
    "(real \<Rightarrow> string) \<Rightarrow> vertex list \<Rightarrow> face list \<Rightarrow> string \<Rightarrow> jsError + string" where
  "generateSTL numberToString vs fs filename =
     (case facets numberToString vs fs
             (''solid '' @ replaceFirst ''.stl'' '''' filename @ [CHR 0x0A]) of
        Inl e \<Rightarrow> Inl e
      | Inr stlContent \<Rightarrow>
          Inr (stlContent @ ''endsolid '' @ replaceFirst ''.stl'' '''' filename @ [CHR 0x0A]))"

subsection \<open>Vocabulary of the serializer's properties\<close>




subsection \<open>Validator\<close>

text \<open>
  The error messages of \<open>validateMesh\<close>, with the values they interpolate:
  \<open>No vertices in mesh\<close>, \<open>No faces in mesh\<close>,
  \<open>Face idx has n vertices (expected 3)\<close> and
  \<open>Face idx references invalid vertex index i\<close>.
\<close>

datatype meshError =
    NoVertices
  | NoFaces
  | FaceArity nat nat
  | InvalidIndex nat int

record validation =
  valid :: bool
  errors :: "meshError list"

text \<open>The body of the loop over the faces for the face at position \<open>idx\<close>.\<close>

definition faceErrors :: "vertex list \<Rightarrow> nat \<Rightarrow> face \<Rightarrow> meshError list" where
  "faceErrors vs idx face =
     (if length face \<noteq> 3 then [FaceArity idx (length face)]
      else concat (map (\<lambda>vertexIdx.
             if vertexIdx < 0 \<or> vertexIdx \<ge> int (length vs) then [InvalidIndex idx vertexIdx]
             else []) face))"

definition validateMesh :: "vertex list \<Rightarrow> face list \<Rightarrow> validation" where
  "validateMesh vs fs =
     (let errors = (if length vs = 0 then [NoVertices] else [])
            @ (if length fs = 0 then [NoFaces] else [])
            @ concat (map (\<lambda>idx. faceErrors vs idx (fs ! idx)) [0..<length fs])
      in \<lparr> valid = (length errors = 0), errors = errors \<rparr>)"

subsection \<open>The application's wrapper\<close>

text \<open>
  \<open>OSMToSTL.generateSTL\<close> validates, warns on the console when the mesh is not valid and
  calls the serializer in either case.  The result pairs the warnings written with what
  the serializer returns.
\<close>

definition pipelineGenerateSTL ::
    "(real \<Rightarrow> string) \<Rightarrow> vertex list \<Rightarrow> face list \<Rightarrow> string
      \<Rightarrow> meshError list list \<times> (jsError + string)" where
  "pipelineGenerateSTL numberToString vs fs filename =
     (let validation = validateMesh vs fs;
          warnings = (if \<not> valid validation then [errors validation] else [])
      in (warnings, generateSTL numberToString vs fs filename))"

section \<open>Layer pipeline: buildings\<close>

text \<open>
  A tag value read with \<open>tags[attr]\<close>: a finite number, the number NaN, a string, or
  anything else that is not \<open>undefined\<close>.  A key that is missing maps to \<open>None\<close>; a
  feature without tags has the empty map (\<open>feature.tags || {}\<close>).  A polygon feature
  carries the array of its rings, of which the pipeline reads the first.
\<close>

datatype tagValue =
    TagNumber real
  | TagNaN
  | TagString string
  | TagOther

datatype geometry =
    Polygon "point list list"
  | LineString "point list"

record feature =
  geometry :: geometry
  tags :: "string \<rightharpoonup> tagValue"

text \<open>
  \<open>height.match(/(\d+\.?\d*)/)\<close>: the leftmost match starts at the first digit of the
  string and takes the digits, one point if it follows, and the digits after the point.
\<close>

definition matchDecimal :: "string \<Rightarrow> string option" where
  "matchDecimal s =
     (let r = dropWhile (\<lambda>c. \<not> isDigit c) s
      in if r = [] then None
         else
           let whole = takeWhile isDigit r;
               rest = dropWhile isDigit r
           in if take 1 rest = ''.'' then Some (whole @ ''.'' @ takeWhile isDigit (drop 1 rest))
              else Some whole)"

text \<open>The value of a string of decimal digits, and \<open>parseFloat\<close> on a match of the pattern.\<close>

definition digitsValue :: "string \<Rightarrow> nat" where
  "digitsValue ds = foldl (\<lambda>n c. 10 * n + (of_char c - 48)) 0 ds"

definition parseFloat :: "string \<Rightarrow> real" where
  "parseFloat m =
     (let whole = takeWhile isDigit m;
          frac = takeWhile isDigit (drop 1 (dropWhile isDigit m))
      in real (digitsValue whole) + real (digitsValue frac) / 10 ^ length frac)"

text \<open>The loop of \<open>getBuildingHeight\<close> over the attribute names still to be tried.\<close>

fun heightFromAttrs :: "(string \<rightharpoonup> tagValue) \<Rightarrow> real \<Rightarrow> string list \<Rightarrow> real" where
  "heightFromAttrs tagMap defaultHeight [] = defaultHeight"
| "heightFromAttrs tagMap defaultHeight (attr # rest) =
     (case tagMap attr of
        None \<Rightarrow> heightFromAttrs tagMap defaultHeight rest
      | Some (TagNumber height) \<Rightarrow>
          (if attr = ''building:levels'' then height * 3 else height)
      | Some (TagString height) \<Rightarrow>
          (case matchDecimal height of
             Some m \<Rightarrow> parseFloat m
           | None \<Rightarrow> heightFromAttrs tagMap defaultHeight rest)
      | Some _ \<Rightarrow> heightFromAttrs tagMap defaultHeight rest)"

definition getBuildingHeight :: "feature \<Rightarrow> real \<Rightarrow> real" where
  "getBuildingHeight feature defaultHeight =
     heightFromAttrs (tags feature) defaultHeight
       [''height'', ''building:height'', ''building:levels'']"

text \<open>
  The fields of the configuration that the buildings branch reads, and the bounding box
  \<open>[north, east, south, west]\<close>; all are finite doubles.  The caller checks
  \<open>north > south\<close> and \<open>east > west\<close> before the pipeline runs.
\<close>

record modelConfig =
  targetSize :: real
  maxHeight :: real
  defaultHeight :: real
  baseThickness :: real

type_synonym bbox = "real \<times> real \<times> real \<times> real"

text \<open>The projection of one point \<open>[lon, lat]\<close>, in the arithmetic of the language.\<close>

definition toModelXY :: "bbox \<Rightarrow> modelConfig \<Rightarrow> point \<Rightarrow> fpoint" where
  "toModelXY box config p =
     (case box of (north, east, south, west) \<Rightarrow>
        let latRange = fsub (Fin north) (Fin south);
            lonRange = fsub (Fin east) (Fin west);
            baseSize = fmul (Fin (targetSize config)) (round64 (12 / 10));
            scaleX = fdiv (Fin (targetSize config)) lonRange;
            scaleY = fdiv (Fin (targetSize config)) latRange;
            centerOffsetX = fdiv (fsub baseSize (fmul scaleX lonRange)) (Fin 2);
            centerOffsetY = fdiv (fsub baseSize (fmul scaleY latRange)) (Fin 2)
        in (fadd (fmul (fsub (Fin (fst p)) (Fin west)) scaleX) centerOffsetX,
            fadd (fmul (fsub (Fin (snd p)) (Fin south)) scaleY) centerOffsetY))"

text \<open>
  The number that \<open>getBuildingHeight\<close> returns: the value above, which takes one operation
  on doubles (the parse of the token, the product with 3, or none), rounded to a double.
\<close>

definition rawHeight :: "feature \<Rightarrow> real \<Rightarrow> num64" where
  "rawHeight feature dh = round64 (getBuildingHeight feature dh)"

text \<open>The running maximum over all features, started at 0 and updated with \<open>Math.max\<close>.\<close>

definition maxBuildingHeight :: "feature list \<Rightarrow> real \<Rightarrow> num64" where
  "maxBuildingHeight features dh =
     fold (\<lambda>feature m. fmax m (rawHeight feature dh)) features (Fin 0)"

definition heightScale :: "modelConfig \<Rightarrow> feature list \<Rightarrow> num64" where
  "heightScale config features =
     (let m = maxBuildingHeight features (defaultHeight config)
      in if flt (Fin 0) m then fdiv (Fin (maxHeight config)) m else Fin 1)"

text \<open>
  The ring handed to the prism builder: the first point is pushed again unless the ring
  ends on it.
\<close>

definition closeRing :: "fpoint list \<Rightarrow> fpoint list" where
  "closeRing modelCoords =
     (if \<not> feq (fst (modelCoords ! 0)) (fst (modelCoords ! (length modelCoords - 1)))
         \<or> \<not> feq (snd (modelCoords ! 0)) (snd (modelCoords ! (length modelCoords - 1)))
      then modelCoords @ [modelCoords ! 0]
      else modelCoords)"

text \<open>
  A call \<open>addPrismFromPolygon(modelCoords, z0, z1)\<close> made by the pipeline, with its three
  arguments.  The loop over the buildings is modelled by the calls it makes on the arena,
  in order.
\<close>

datatype prismCall = PrismCall "fpoint list" num64 num64

text \<open>
  The body of the loop over the buildings for one feature, the same in \<open>processLayer\<close>
  and in \<open>scaleCoordinates\<close>: the call it makes, none for a feature it passes over, or
  the error it throws.  A polygon without a ring, or with an empty ring, makes the body
  read a component of \<open>undefined\<close>; the buildings branch has no \<open>try\<close> around it.
\<close>

definition buildingStep ::
    "bbox \<Rightarrow> modelConfig \<Rightarrow> num64 \<Rightarrow> feature \<Rightarrow> jsError + prismCall list" where
  "buildingStep box config scale feature =
     (case geometry feature of
        LineString line \<Rightarrow> Inr []
      | Polygon rings \<Rightarrow>
          (case rings of
             [] \<Rightarrow> Inl TypeError
           | exterior # others \<Rightarrow>
               if length exterior > 500 then Inr []
               else
                 let modelCoords = map (toModelXY box config) exterior
                 in if modelCoords = [] then Inl TypeError
                    else
                      let height = fmul (rawHeight feature (defaultHeight config)) scale
                      in Inr [PrismCall (closeRing modelCoords)
                                (Fin (baseThickness config))
                                (fadd (Fin (baseThickness config)) height)]))"

fun buildingsLoop ::
    "bbox \<Rightarrow> modelConfig \<Rightarrow> num64 \<Rightarrow> feature list \<Rightarrow> jsError + prismCall list" where
  "buildingsLoop box config scale [] = Inr []"
| "buildingsLoop box config scale (feature # rest) =
     (case buildingStep box config scale feature of
        Inl e \<Rightarrow> Inl e
      | Inr calls \<Rightarrow>
          (case buildingsLoop box config scale rest of
             Inl e \<Rightarrow> Inl e
           | Inr later \<Rightarrow> Inr (calls @ later)))"

text \<open>
  \<open>processLayer\<close> with layer type \<open>buildings\<close> runs the loop on arrays it has just emptied,
  in chunks of 50 features (the chunks only decide where the loop yields);
  \<open>scaleCoordinates\<close> runs the same loop on the arrays that hold the base plate.
\<close>

definition processLayerBuildings :: "feature list \<Rightarrow> bbox \<Rightarrow> modelConfig \<Rightarrow> jsError + prismCall list" where
  "processLayerBuildings features box config =
     buildingsLoop box config (heightScale config features) features"

definition scaleCoordinatesBuildings :: "feature list \<Rightarrow> bbox \<Rightarrow> modelConfig \<Rightarrow> jsError + prismCall list" where
  "scaleCoordinatesBuildings buildings box config =
     buildingsLoop box config (heightScale config buildings) buildings"

text \<open>Features on which the loop body does not throw.\<close>

definition hasRing :: "feature \<Rightarrow> bool" where
  "hasRing f \<longleftrightarrow>
     (case geometry f of
        Polygon rings \<Rightarrow>
          (case rings of [] \<Rightarrow> False | exterior # others \<Rightarrow> exterior \<noteq> [])
      | LineString line \<Rightarrow> True)"

section \<open>Verification: ring cleanup\<close>

lemma length_cleanCoords:
  "length (cleanCoords coords) = length coords \<or> length (cleanCoords coords) = length coords - 1"
  by (simp add: cleanCoords_def)

lemma length_cleanCoords_le: "length (cleanCoords coords) \<le> length coords"
  by (simp add: cleanCoords_def)

section \<open>Verification: fan triangulator\<close>

text \<open>
  C3 (as amended).  For every ring of at most 1000 raw points whose cleaned point count
  \<open>k\<close> is at least 3, \<open>triangulatePolygon\<close> returns exactly \<open>k - 2\<close> triangles, the
  \<open>i\<close>-th being \<open>(0, i, i + 1)\<close> for \<open>i = 1 .. k - 2\<close>; every input with fewer than 3
  or more than 1000 points, counted before or after the cleanup, gives the empty list.
\<close>

theorem triangulatePolygon_fan:
  "(3 \<le> length (cleanCoords ring) \<and> length ring \<le> 1000 \<longrightarrow>
      length (triangulatePolygon ring) = length (cleanCoords ring) - 2
      \<and> (\<forall>i. 1 \<le> i \<and> i \<le> length (cleanCoords ring) - 2 \<longrightarrow>
             triangulatePolygon ring ! (i - 1) = (0, int i, int i + 1)))
   \<and> (length ring < 3 \<or> length ring > 1000 \<longrightarrow> triangulatePolygon ring = [])
   \<and> (length (cleanCoords ring) < 3 \<or> length (cleanCoords ring) > 1000 \<longrightarrow>
         triangulatePolygon ring = [])"
proof -
  have le: "length (cleanCoords ring) \<le> length ring"
    by (rule length_cleanCoords_le)
  show ?thesis
    using le by (auto simp: triangulatePolygon_def Let_def)
qed

text \<open>The pentagon of the repository's triangulation test: three triangles.\<close>

theorem triangulatePolygon_fan_witness:
  "length (triangulatePolygon [(0, 0), (5, 0), (6, 3), (3, 5), (0, 3), (0, 0)]) = 3
   \<and> triangulatePolygon [(0, 0), (5, 0), (6, 3), (3, 5), (0, 3), (0, 0)] ! 2 = (0, 3, 4)"
proof -
  let ?ring = "[(0, 0), (5, 0), (6, 3), (3, 5), (0, 3), (0, 0)] :: point list"
  have k: "length (cleanCoords ?ring) = 5"
    by (simp add: cleanCoords_def)
  have "3 \<le> length (cleanCoords ?ring) \<and> length ?ring \<le> 1000"
    by (simp add: k)
  with triangulatePolygon_fan [of ?ring]
  have "length (triangulatePolygon ?ring) = length (cleanCoords ?ring) - 2"
    and "\<forall>i. 1 \<le> i \<and> i \<le> length (cleanCoords ?ring) - 2 \<longrightarrow>
             triangulatePolygon ?ring ! (i - 1) = (0, int i, int i + 1)"
    by blast+
  then show ?thesis
    using k by (auto dest: spec [of _ 3])
qed

text \<open>
  A closed ring of 1001 raw points has 1000 points after the cleanup, inside the range of
  the claim, yet the guard on the raw length returns the empty list instead of 998
  triangles.
\<close>

theorem triangulatePolygon_closed_1001_counterexample:
  "length (cleanCoords (replicate 1001 (0, 0))) = 1000
   \<and> triangulatePolygon (replicate 1001 (0, 0)) = []
   \<and> length (triangulatePolygon (replicate 1001 (0, 0)))
        \<noteq> length (cleanCoords (replicate 1001 (0, 0))) - 2"
  by (simp add: cleanCoords_def triangulatePolygon_def)

section \<open>Verification: simple prism builder\<close>

lemma length_verticalPairs: "length (concat (map (verticalPair z0 z1) cc)) = 2 * length cc"
  by (induction cc) (simp_all add: verticalPair_def)

lemma nth_verticalPairs:
  "i < length cc \<Longrightarrow>
     concat (map (verticalPair z0 z1) cc) ! (2 * i) = (fst (cc ! i), snd (cc ! i), z0)
     \<and> concat (map (verticalPair z0 z1) cc) ! (2 * i + 1) = (fst (cc ! i), snd (cc ! i), z1)"
proof (induction cc arbitrary: i)
  case Nil
  then show ?case by simp
next
  case (Cons p ps)
  show ?case
  proof (cases i)
    case 0
    then show ?thesis by (simp add: verticalPair_def)
  next
    case (Suc j)
    with Cons.prems have "j < length ps" by simp
    from Cons.IH [OF this] show ?thesis
      using Suc by (simp add: verticalPair_def)
  qed
qed

lemma length_sideFaces: "length (concat (map (sideFaces b n) xs)) = 2 * length xs"
  by (induction xs) (simp_all add: sideFaces_def Let_def)

lemma length_capFaces: "length (concat (map (capFaces b t) xs)) = 2 * length xs"
  by (induction xs) (simp_all add: capFaces_def)

lemma addPrismFromPolygon_accepted:
  assumes "3 \<le> length (cleanCoords ring)" and "length (cleanCoords ring) \<le> 500"
  shows "addPrismFromPolygon ring z0 z1 m =
           m \<lparr> vertices := vertices m @ concat (map (verticalPair z0 z1) (cleanCoords ring)),
               faces := faces m
                  @ concat (map (sideFaces (int (length (vertices m))) (length (cleanCoords ring)))
                       [0..<length (cleanCoords ring)])
                  @ concat (map (capFaces (int (length (vertices m))) (int (length (vertices m)) + 1))
                       [1..<length (cleanCoords ring) - 1]) \<rparr>"
proof -
  have "length (cleanCoords ring) \<le> length ring"
    by (rule length_cleanCoords_le)
  with assms have "\<not> length ring < 3" by simp
  with assms show ?thesis
    by (simp add: addPrismFromPolygon_def Let_def)
qed

text \<open>
  C1.  For every ring with \<open>n\<close> points after dropping a duplicated closing point,
  \<open>3 \<le> n \<le> 500\<close>, \<open>addPrismFromPolygon\<close> keeps the vertices and faces already in the
  mesh and appends exactly \<open>2n\<close> vertices, the pair \<open>(point, z0)\<close>, \<open>(point, z1)\<close> for each
  point in turn, and exactly \<open>2n + 2(n - 2)\<close> faces: two side triangles per edge, then
  \<open>2(n - 2)\<close> cap triangles.
\<close>

theorem addPrismFromPolygon_counts:
  assumes "3 \<le> length (cleanCoords ring)" and "length (cleanCoords ring) \<le> 500"
  shows "let cc = cleanCoords ring;
             n = length cc;
             base = length (vertices m);
             m' = addPrismFromPolygon ring z0 z1 m
         in length (vertices m') = base + 2 * n
          \<and> take base (vertices m') = vertices m
          \<and> (\<forall>i < n. vertices m' ! (base + 2 * i) = (fst (cc ! i), snd (cc ! i), z0)
                    \<and> vertices m' ! (base + 2 * i + 1) = (fst (cc ! i), snd (cc ! i), z1))
          \<and> faces m' = faces m
               @ concat (map (sideFaces (int base) n) [0..<n])
               @ concat (map (capFaces (int base) (int base + 1)) [1..<n - 1])
          \<and> length (concat (map (sideFaces (int base) n) [0..<n])) = 2 * n
          \<and> length (concat (map (capFaces (int base) (int base + 1)) [1..<n - 1])) = 2 * (n - 2)
          \<and> length (faces m') = length (faces m) + (2 * n + 2 * (n - 2))"
proof -
  let ?cc = "cleanCoords ring"
  let ?n = "length ?cc"
  note eq = addPrismFromPolygon_accepted [OF assms, of z0 z1 m]
  have fs: "faces (addPrismFromPolygon ring z0 z1 m) = faces m
      @ concat (map (sideFaces (int (length (vertices m))) ?n) [0..<?n])
      @ concat (map (capFaces (int (length (vertices m))) (int (length (vertices m)) + 1)) [1..<?n - 1])"
    by (simp add: eq)
  have lens: "length (concat (map (sideFaces (int (length (vertices m))) ?n) [0..<?n])) = 2 * ?n"
    "length (concat (map (capFaces (int (length (vertices m))) (int (length (vertices m)) + 1))
        [1..<?n - 1])) = 2 * (?n - 2)"
    using assms by (simp_all add: length_sideFaces length_capFaces)
  have v: "vertices (addPrismFromPolygon ring z0 z1 m)
             = vertices m @ concat (map (verticalPair z0 z1) ?cc)"
    by (simp add: eq)
  have f: "length (faces (addPrismFromPolygon ring z0 z1 m))
             = length (faces m) + (2 * ?n + 2 * (?n - 2))"
    using assms by (simp add: eq length_sideFaces length_capFaces)
  have nth: "\<forall>i < ?n. vertices (addPrismFromPolygon ring z0 z1 m) ! (length (vertices m) + 2 * i)
                 = (fst (?cc ! i), snd (?cc ! i), z0)
               \<and> vertices (addPrismFromPolygon ring z0 z1 m) ! (length (vertices m) + 2 * i + 1)
                 = (fst (?cc ! i), snd (?cc ! i), z1)"
  proof (intro allI impI)
    fix i assume "i < ?n"
    from nth_verticalPairs [OF this, of z0 z1]
    show "vertices (addPrismFromPolygon ring z0 z1 m) ! (length (vertices m) + 2 * i)
                 = (fst (?cc ! i), snd (?cc ! i), z0)
               \<and> vertices (addPrismFromPolygon ring z0 z1 m) ! (length (vertices m) + 2 * i + 1)
                 = (fst (?cc ! i), snd (?cc ! i), z1)"
      by (simp add: v nth_append add.assoc)
  qed
  show ?thesis
    unfolding Let_def
    using f fs lens nth by (simp add: v length_verticalPairs)
qed

text \<open>The square of the repository's first test: 8 vertices and 12 faces.\<close>

theorem addPrismFromPolygon_counts_witness:
  "length (vertices (addPrismFromPolygon [(0, 0), (10, 0), (10, 10), (0, 10), (0, 0)] 0 5 emptyMesh)) = 8
   \<and> length (faces (addPrismFromPolygon [(0, 0), (10, 0), (10, 10), (0, 10), (0, 0)] 0 5 emptyMesh)) = 12"
proof -
  let ?ring = "[(0, 0), (10, 0), (10, 10), (0, 10), (0, 0)] :: point list"
  have k: "length (cleanCoords ?ring) = 4"
    by (simp add: cleanCoords_def)
  have "3 \<le> length (cleanCoords ?ring)" and "length (cleanCoords ?ring) \<le> 500"
    by (simp_all add: k)
  from addPrismFromPolygon_counts [OF this, of emptyMesh 0 5]
  show ?thesis
    by (simp add: Let_def k emptyMesh_def)
qed

section \<open>Verification: triangulated prism builder\<close>

lemma length_wallFaces: "length (concat (map (wallFaces b t n) xs)) = 2 * length xs"
  by (induction xs) (simp_all add: wallFaces_def Let_def)

lemma length_triFaces: "length (concat (map (triFaces b t) xs)) = 2 * length xs"
  by (induction xs) (simp_all add: triFaces_def split: prod.splits)

lemma cleanCoords_idem:
  "cc ! 0 \<noteq> cc ! (length cc - 1) \<Longrightarrow> cleanCoords cc = cc"
  by (auto simp: cleanCoords_def prod_eq_iff)

lemma triFaces_fan:
  "concat (map (triFaces b t) (map (\<lambda>i. (0, int i, int i + 1)) xs))
     = concat (map (\<lambda>i. [[b, b + (int i + 1), b + int i], [t, t + int i, t + (int i + 1)]]) xs)"
  by (induction xs) (simp_all add: triFaces_def)

text \<open>
  What the triangulated builder does on every ring it does not reject by length: the
  triangulator cleans the already cleaned ring a second time.
\<close>

lemma addPrismFromPolygonTriangulated_in_range:
  assumes "length ring \<le> 1000" and "3 \<le> length (cleanCoords ring)"
  shows "addPrismFromPolygonTriangulated ring z0 z1 m =
           (if length (cleanCoords (cleanCoords ring)) < 3 then m
            else m \<lparr> vertices := vertices m
                         @ map (\<lambda>p. (fst p, snd p, z0)) (cleanCoords ring)
                         @ map (\<lambda>p. (fst p, snd p, z1)) (cleanCoords ring),
                      faces := faces m
                         @ concat (map (triFaces (int (length (vertices m)))
                                (int (length (vertices m)) + int (length (cleanCoords ring))))
                              (map (\<lambda>i. (0, int i, int i + 1))
                                 [1..<length (cleanCoords (cleanCoords ring)) - 1]))
                         @ concat (map (wallFaces (int (length (vertices m)))
                                (int (length (vertices m)) + int (length (cleanCoords ring)))
                                (length (cleanCoords ring)))
                              [0..<length (cleanCoords ring)]) \<rparr>)"
proof -
  have le: "length (cleanCoords ring) \<le> length ring"
    by (rule length_cleanCoords_le)
  have le2: "length (cleanCoords (cleanCoords ring)) \<le> length (cleanCoords ring)"
    by (rule length_cleanCoords_le)
  from assms le le2 show ?thesis
    by (simp add: addPrismFromPolygonTriangulated_def triangulatePolygon_def Let_def)
qed

text \<open>
  C2 (as amended).  For every ring of at most 1000 raw points whose cleaned point count
  \<open>k\<close> is at least 3 and whose cleaned ring does not itself end on its first point,
  \<open>addPrismFromPolygonTriangulated\<close> appends exactly \<open>2k\<close> vertices, \<open>k\<close> bottom vertices
  then \<open>k\<close> top vertices, and exactly \<open>2(k - 2) + 2k\<close> faces: for each fan triangle
  \<open>(0, i, i + 1)\<close> the bottom face with reversed winding and the top face with forward
  winding, then two wall triangles per ring edge.
\<close>

theorem addPrismFromPolygonTriangulated_counts:
  assumes "3 \<le> length (cleanCoords ring)" and "length ring \<le> 1000"
    and "cleanCoords ring ! 0 \<noteq> cleanCoords ring ! (length (cleanCoords ring) - 1)"
  shows "let cc = cleanCoords ring;
             k = length cc;
             b = int (length (vertices m));
             t = b + int k;
             m' = addPrismFromPolygonTriangulated ring z0 z1 m
         in vertices m' = vertices m @ map (\<lambda>p. (fst p, snd p, z0)) cc
                                      @ map (\<lambda>p. (fst p, snd p, z1)) cc
          \<and> length (vertices m') = length (vertices m) + 2 * k
          \<and> faces m' = faces m
               @ concat (map (\<lambda>i. [[b, b + (int i + 1), b + int i],
                                     [t, t + int i, t + (int i + 1)]]) [1..<k - 1])
               @ concat (map (wallFaces b t k) [0..<k])
          \<and> length (faces m') = length (faces m) + (2 * (k - 2) + 2 * k)"
proof -
  let ?cc = "cleanCoords ring"
  have idem: "cleanCoords ?cc = ?cc"
    using assms(3) by (rule cleanCoords_idem)
  have eq: "addPrismFromPolygonTriangulated ring z0 z1 m =
      m \<lparr> vertices := vertices m @ map (\<lambda>p. (fst p, snd p, z0)) ?cc
                                   @ map (\<lambda>p. (fst p, snd p, z1)) ?cc,
           faces := faces m
             @ concat (map (triFaces (int (length (vertices m)))
                    (int (length (vertices m)) + int (length ?cc)))
                  (map (\<lambda>i. (0, int i, int i + 1)) [1..<length ?cc - 1]))
             @ concat (map (wallFaces (int (length (vertices m)))
                    (int (length (vertices m)) + int (length ?cc)) (length ?cc))
                  [0..<length ?cc]) \<rparr>"
    using addPrismFromPolygonTriangulated_in_range [OF assms(2) assms(1), of z0 z1 m] assms(1)
    by (simp add: idem)
  have len: "length (faces (addPrismFromPolygonTriangulated ring z0 z1 m))
        = length (faces m) + (2 * (length ?cc - 2) + 2 * length ?cc)"
    using assms(1) by (simp add: eq length_triFaces length_wallFaces del: map_map)
  show ?thesis
    unfolding Let_def using len by (simp add: eq triFaces_fan del: map_map)
qed

text \<open>The closed square: 8 vertices and 12 faces.\<close>

theorem addPrismFromPolygonTriangulated_counts_witness:
  "length (vertices (addPrismFromPolygonTriangulated [(0, 0), (10, 0), (10, 10), (0, 10), (0, 0)] 0 5 emptyMesh)) = 8
   \<and> length (faces (addPrismFromPolygonTriangulated [(0, 0), (10, 0), (10, 10), (0, 10), (0, 0)] 0 5 emptyMesh)) = 12"
proof -
  let ?ring = "[(0, 0), (10, 0), (10, 10), (0, 10), (0, 0)] :: point list"
  have cc: "cleanCoords ?ring = [(0, 0), (10, 0), (10, 10), (0, 10)]"
    by (simp add: cleanCoords_def)
  have "3 \<le> length (cleanCoords ?ring)" and "length ?ring \<le> 1000"
    and "cleanCoords ?ring ! 0 \<noteq> cleanCoords ?ring ! (length (cleanCoords ?ring) - 1)"
    by (simp_all add: cc)
  note counts = addPrismFromPolygonTriangulated_counts
    [OF this, of "emptyMesh" 0 5, unfolded Let_def]
  from counts have "length (vertices (addPrismFromPolygonTriangulated ?ring 0 5 emptyMesh))
      = length (vertices emptyMesh) + 2 * length (cleanCoords ?ring)"
    by (elim conjE)
  moreover from counts have "length (faces (addPrismFromPolygonTriangulated ?ring 0 5 emptyMesh))
      = length (faces emptyMesh)
        + (2 * (length (cleanCoords ?ring) - 2) + 2 * length (cleanCoords ?ring))"
    by (elim conjE)
  ultimately show ?thesis
    by (simp add: cc emptyMesh_def)
qed

text \<open>
  Rings that end on their first point twice.  The cleaned ring of the first has \<open>k = 3\<close>
  points, the triangulator cleans it again to 2 points and returns no triangle, and the
  builder leaves the mesh as it was.  The cleaned ring of the second has \<open>k = 4\<close> points
  and gets 8 vertices but only one fan triangle, 10 faces instead of 12.
\<close>

theorem addPrismFromPolygonTriangulated_double_cleanup_counterexample:
  "length (cleanCoords [(0, 0), (1, 0), (0, 0), (0, 0)]) = 3
   \<and> addPrismFromPolygonTriangulated [(0, 0), (1, 0), (0, 0), (0, 0)] 0 1 emptyMesh
       = emptyMesh
   \<and> length (cleanCoords [(0, 0), (1, 0), (1, 1), (0, 0), (0, 0)]) = 4
   \<and> length (vertices (addPrismFromPolygonTriangulated [(0, 0), (1, 0), (1, 1), (0, 0), (0, 0)] 0 1
        emptyMesh)) = 8
   \<and> length (faces (addPrismFromPolygonTriangulated [(0, 0), (1, 0), (1, 1), (0, 0), (0, 0)] 0 1
        emptyMesh)) = 10"
  by (simp add: addPrismFromPolygonTriangulated_def triangulatePolygon_def cleanCoords_def
        Let_def triFaces_def wallFaces_def upt_conv_Cons emptyMesh_def)


section \<open>Verification: rejected rings\<close>

text \<open>
  C6.  A ring with more than 500 points after the cleanup leaves the mesh of
  \<open>addPrismFromPolygon\<close> unchanged; a ring with more than 1000 or fewer than 3 points,
  counted before or after the cleanup, leaves the mesh of
  \<open>addPrismFromPolygonTriangulated\<close> unchanged and makes \<open>triangulatePolygon\<close>, which
  never touches the mesh, return the empty list.
\<close>

theorem oversized_rings_rejected:
  "(500 < length (cleanCoords ring) \<longrightarrow> addPrismFromPolygon ring z0 z1 m = m)
   \<and> (1000 < length ring \<or> length ring < 3
        \<or> 1000 < length (cleanCoords ring) \<or> length (cleanCoords ring) < 3 \<longrightarrow>
          addPrismFromPolygonTriangulated ring z0 z1 m = m \<and> triangulatePolygon ring = [])"
  by (auto simp: addPrismFromPolygon_def addPrismFromPolygonTriangulated_def
        triangulatePolygon_def Let_def)

text \<open>
  The 600-point polyline of the repository's fourth test, and a 1001-point one for the
  triangulated builder and the triangulator.
\<close>

theorem oversized_rings_rejected_witness:
  "addPrismFromPolygon (map (\<lambda>i. (real i, real i)) [0..<600]) 0 1 emptyMesh = emptyMesh
   \<and> addPrismFromPolygonTriangulated (map (\<lambda>i. (real i, real i)) [0..<1001]) 0 1 emptyMesh = emptyMesh
   \<and> triangulatePolygon (map (\<lambda>i. (real i, real i)) [0..<1001]) = []"
proof -
  have a: "500 < length (cleanCoords (map (\<lambda>i. (real i, real i)) [0..<600]))"
    by (simp add: cleanCoords_def)
  have b: "1000 < length (map (\<lambda>i. (real i, real i)) [0..<1001])"
    by simp
  show ?thesis
    using a b
      oversized_rings_rejected [of "map (\<lambda>i. (real i, real i)) [0..<600]" 0 1 emptyMesh]
      oversized_rings_rejected [of "map (\<lambda>i. (real i, real i)) [0..<1001]" 0 1 emptyMesh]
    by blast
qed

section \<open>Verification: the face-index invariant\<close>

lemma blockFaces_append: "blockFaces lo hi (fs @ gs) \<longleftrightarrow> blockFaces lo hi fs \<and> blockFaces lo hi gs"
  by (auto simp: blockFaces_def)

lemma blockFaces_concat:
  "(\<And>x. x \<in> set xs \<Longrightarrow> blockFaces lo hi (g x)) \<Longrightarrow> blockFaces lo hi (concat (map g xs))"
  by (auto simp: blockFaces_def)

lemma blockFaces_sideFaces:
  assumes "i < n"
  shows "blockFaces b (b + 2 * int n) (sideFaces b n i)"
proof -
  define j where "j = (i + 1) mod n"
  from assms have "j < n" by (simp add: j_def)
  with assms have "blockFaces b (b + 2 * int n)
      [[b + 2 * int i, b + 2 * int j, b + 2 * int i + 1],
       [b + 2 * int i + 1, b + 2 * int j, b + 2 * int j + 1]]"
    by (auto simp: blockFaces_def)
  then show ?thesis
    by (simp only: sideFaces_def Let_def j_def)
qed

lemma blockFaces_capFaces:
  assumes "1 \<le> i" and "i < n - 1"
  shows "blockFaces b (b + 2 * int n) (capFaces b (b + 1) i)"
  using assms by (auto simp: blockFaces_def capFaces_def)

lemma blockFaces_wallFaces:
  assumes "i < n"
  shows "blockFaces b (b + 2 * int n) (wallFaces b (b + int n) n i)"
proof -
  define j where "j = (i + 1) mod n"
  from assms have "j < n" by (simp add: j_def)
  with assms have "blockFaces b (b + 2 * int n)
      [[b + int i, b + int j, b + int n + int i],
       [b + int n + int i, b + int j, b + int n + int j]]"
    by (auto simp: blockFaces_def)
  then show ?thesis
    by (simp only: wallFaces_def Let_def j_def)
qed

lemma triangulatePolygon_in_range:
  assumes "tri \<in> set (triangulatePolygon cc)"
  shows "\<exists>i. tri = (0, int i, int i + 1) \<and> 1 \<le> i \<and> i + 1 < length cc"
proof -
  have le: "length (cleanCoords cc) \<le> length cc"
    by (rule length_cleanCoords_le)
  from assms obtain i where "tri = (0, int i, int i + 1)" and "1 \<le> i"
      and "i < length (cleanCoords cc) - 1"
    by (auto simp: triangulatePolygon_def Let_def split: if_splits)
  with le show ?thesis by (intro exI [of _ i]) auto
qed

lemma blockFaces_triFaces:
  assumes "tri \<in> set (triangulatePolygon cc)"
  shows "blockFaces b (b + 2 * int (length cc)) (triFaces b (b + int (length cc)) tri)"
proof -
  from triangulatePolygon_in_range [OF assms]
  obtain i where "tri = (0, int i, int i + 1)" and "1 \<le> i" and "i + 1 < length cc"
    by blast
  then show ?thesis
    by (auto simp: blockFaces_def triFaces_def)
qed

text \<open>Appending a block of vertices and faces that only refer to that block.\<close>

lemma faceIndexInvariant_extend:
  assumes "faceIndexInvariant m"
    and "blockFaces (int (length (vertices m))) (int (length (vertices m)) + int (length vs)) fs"
  shows "faceIndexInvariant (m \<lparr> vertices := vertices m @ vs, faces := faces m @ fs \<rparr>)"
  using assms by (fastforce simp: faceIndexInvariant_def blockFaces_def)

lemma noNegativeIndex_extend:
  assumes "noNegativeIndex m"
    and "blockFaces (int (length (vertices m))) hi fs"
  shows "noNegativeIndex (m \<lparr> vertices := vertices m @ vs, faces := faces m @ fs \<rparr>)"
  using assms by (fastforce simp: noNegativeIndex_def blockFaces_def)

lemma addPrismFromPolygon_cases:
  "addPrismFromPolygon coords z0 z1 m = m
   \<or> (\<exists>vs fs. addPrismFromPolygon coords z0 z1 m
                 = m \<lparr> vertices := vertices m @ vs, faces := faces m @ fs \<rparr>
            \<and> blockFaces (int (length (vertices m)))
                 (int (length (vertices m)) + int (length vs)) fs)"
proof (cases "length coords < 3 \<or> 500 < length (cleanCoords coords)")
  case True
  then show ?thesis
    by (auto simp: addPrismFromPolygon_def Let_def)
next
  case False
  let ?cc = "cleanCoords coords"
  let ?n = "length ?cc"
  let ?b = "int (length (vertices m))"
  let ?vs = "concat (map (verticalPair z0 z1) ?cc)"
  let ?fs = "concat (map (sideFaces ?b ?n) [0..<?n]) @ concat (map (capFaces ?b (?b + 1)) [1..<?n - 1])"
  have eq: "addPrismFromPolygon coords z0 z1 m
              = m \<lparr> vertices := vertices m @ ?vs, faces := faces m @ ?fs \<rparr>"
    using False by (simp add: addPrismFromPolygon_def Let_def)
  have "blockFaces ?b (?b + 2 * int ?n) (concat (map (sideFaces ?b ?n) [0..<?n]))"
    by (rule blockFaces_concat) (simp add: blockFaces_sideFaces)
  moreover have "blockFaces ?b (?b + 2 * int ?n) (concat (map (capFaces ?b (?b + 1)) [1..<?n - 1]))"
    by (rule blockFaces_concat) (simp add: blockFaces_capFaces)
  ultimately have "blockFaces ?b (?b + int (length ?vs)) ?fs"
    by (simp add: blockFaces_append length_verticalPairs)
  with eq show ?thesis by blast
qed

lemma addPrismFromPolygonTriangulated_cases:
  "addPrismFromPolygonTriangulated coords z0 z1 m = m
   \<or> (\<exists>vs fs. addPrismFromPolygonTriangulated coords z0 z1 m
                 = m \<lparr> vertices := vertices m @ vs, faces := faces m @ fs \<rparr>
            \<and> blockFaces (int (length (vertices m)))
                 (int (length (vertices m)) + int (length vs)) fs)"
proof (cases "addPrismFromPolygonTriangulated coords z0 z1 m = m")
  case True
  then show ?thesis by simp
next
  case False
  let ?cc = "cleanCoords coords"
  let ?n = "length ?cc"
  let ?b = "int (length (vertices m))"
  let ?vs = "map (\<lambda>p. (fst p, snd p, z0)) ?cc @ map (\<lambda>p. (fst p, snd p, z1)) ?cc"
  let ?fs = "concat (map (triFaces ?b (?b + int ?n)) (triangulatePolygon ?cc))
             @ concat (map (wallFaces ?b (?b + int ?n) ?n) [0..<?n])"
  have eq: "addPrismFromPolygonTriangulated coords z0 z1 m
              = m \<lparr> vertices := vertices m @ ?vs, faces := faces m @ ?fs \<rparr>"
    using False by (simp add: addPrismFromPolygonTriangulated_def Let_def split: if_splits)
  have "blockFaces ?b (?b + 2 * int ?n)
          (concat (map (triFaces ?b (?b + int ?n)) (triangulatePolygon ?cc)))"
    by (rule blockFaces_concat) (rule blockFaces_triFaces)
  moreover have "blockFaces ?b (?b + 2 * int ?n) (concat (map (wallFaces ?b (?b + int ?n) ?n) [0..<?n]))"
    by (rule blockFaces_concat) (simp add: blockFaces_wallFaces)
  ultimately have "blockFaces ?b (?b + int (length ?vs)) ?fs"
    by (simp add: blockFaces_append)
  with eq show ?thesis by blast
qed

lemma faceIndexInvariant_addPrismFromPolygon:
  "faceIndexInvariant m \<Longrightarrow> faceIndexInvariant (addPrismFromPolygon coords z0 z1 m)"
  using addPrismFromPolygon_cases [of coords z0 z1 m]
  by (auto intro: faceIndexInvariant_extend)

lemma noNegativeIndex_addPrismFromPolygon:
  "noNegativeIndex m \<Longrightarrow> noNegativeIndex (addPrismFromPolygon coords z0 z1 m)"
  using addPrismFromPolygon_cases [of coords z0 z1 m]
  by (auto intro: noNegativeIndex_extend)

lemma faceIndexInvariant_addPrismFromPolygonTriangulated:
  "faceIndexInvariant m \<Longrightarrow> faceIndexInvariant (addPrismFromPolygonTriangulated coords z0 z1 m)"
  using addPrismFromPolygonTriangulated_cases [of coords z0 z1 m]
  by (auto intro: faceIndexInvariant_extend)

lemma noNegativeIndex_addPrismFromPolygonTriangulated:
  "noNegativeIndex m \<Longrightarrow> noNegativeIndex (addPrismFromPolygonTriangulated coords z0 z1 m)"
  using addPrismFromPolygonTriangulated_cases [of coords z0 z1 m]
  by (auto intro: noNegativeIndex_extend)

lemma createSolidBase_invariant:
  "faceIndexInvariant (createSolidBase side thickness)
   \<and> noNegativeIndex (createSolidBase side thickness)"
  by (simp add: faceIndexInvariant_def noNegativeIndex_def createSolidBase_def)

lemma blockFaces_base:
  "blockFaces 0 8 (faces (createSolidBase side thickness))"
  by (simp add: blockFaces_def createSolidBase_def)

lemma faceIndexInvariant_pushSolidBase:
  "faceIndexInvariant m \<Longrightarrow> faceIndexInvariant (pushSolidBase side thickness m)"
  using blockFaces_base [of side thickness]
  by (fastforce simp: faceIndexInvariant_def blockFaces_def pushSolidBase_def Let_def
        createSolidBase_def)

lemma noNegativeIndex_pushSolidBase:
  "noNegativeIndex m \<Longrightarrow> noNegativeIndex (pushSolidBase side thickness m)"
  using blockFaces_base [of side thickness]
  by (fastforce simp: noNegativeIndex_def blockFaces_def pushSolidBase_def Let_def)

lemma faceIndexInvariant_arenaStep: "faceIndexInvariant m \<Longrightarrow> faceIndexInvariant (arenaStep c m)"
  by (cases c)
    (simp_all add: faceIndexInvariant_pushSolidBase faceIndexInvariant_addPrismFromPolygon
       faceIndexInvariant_addPrismFromPolygonTriangulated)

lemma noNegativeIndex_arenaStep: "noNegativeIndex m \<Longrightarrow> noNegativeIndex (arenaStep c m)"
  by (cases c)
    (simp_all add: noNegativeIndex_pushSolidBase noNegativeIndex_addPrismFromPolygon
       noNegativeIndex_addPrismFromPolygonTriangulated)

lemma faceIndexInvariant_fold:
  "faceIndexInvariant m \<Longrightarrow> faceIndexInvariant (fold arenaStep calls m)"
  by (induction calls arbitrary: m) (simp_all add: faceIndexInvariant_arenaStep)

lemma noNegativeIndex_fold:
  "noNegativeIndex m \<Longrightarrow> noNegativeIndex (fold arenaStep calls m)"
  by (induction calls arbitrary: m) (simp_all add: noNegativeIndex_arenaStep)

text \<open>
  C10.  The mesh that \<open>createSolidBase\<close> returns satisfies the face-index invariant, and
  every operation on the arena preserves it on any input: if every face of the mesh has
  exactly three indices, each less than the vertex count, the same holds after the base
  plate is pushed, after \<open>addPrismFromPolygon\<close>, after \<open>addPrismFromPolygonTriangulated\<close>
  and after any sequence of such calls; no call introduces a negative index either.
\<close>

theorem arena_preserves_face_index_invariant:
  "faceIndexInvariant (createSolidBase side thickness)
   \<and> noNegativeIndex (createSolidBase side thickness)
   \<and> (faceIndexInvariant m \<longrightarrow>
        faceIndexInvariant (pushSolidBase side thickness m)
        \<and> faceIndexInvariant (addPrismFromPolygon coords z0 z1 m)
        \<and> faceIndexInvariant (addPrismFromPolygonTriangulated coords z0 z1 m)
        \<and> faceIndexInvariant (fold arenaStep calls m))
   \<and> (noNegativeIndex m \<longrightarrow>
        noNegativeIndex (pushSolidBase side thickness m)
        \<and> noNegativeIndex (addPrismFromPolygon coords z0 z1 m)
        \<and> noNegativeIndex (addPrismFromPolygonTriangulated coords z0 z1 m)
        \<and> noNegativeIndex (fold arenaStep calls m))"
  by (intro conjI impI)
    (simp_all add: createSolidBase_invariant
       faceIndexInvariant_pushSolidBase noNegativeIndex_pushSolidBase
       faceIndexInvariant_addPrismFromPolygon faceIndexInvariant_addPrismFromPolygonTriangulated
       noNegativeIndex_addPrismFromPolygon noNegativeIndex_addPrismFromPolygonTriangulated
       faceIndexInvariant_fold noNegativeIndex_fold)

text \<open>
  An arena that starts empty, gets the base plate and then a square prism from each
  builder.
\<close>

theorem arena_preserves_face_index_invariant_witness:
  "faceIndexInvariant
     (fold arenaStep
        [PushSolidBase 216 2,
         AddPrism [(0, 0), (10, 0), (10, 10), (0, 10), (0, 0)] 2 7,
         AddPrismTriangulated [(20, 0), (30, 0), (30, 10), (20, 10), (20, 0)] 2 3]
        emptyMesh)"
proof -
  have "faceIndexInvariant emptyMesh"
    by (simp add: faceIndexInvariant_def emptyMesh_def)
  with arena_preserves_face_index_invariant
    [of 216 2 emptyMesh "[]" 0 0
      "[PushSolidBase 216 2,
        AddPrism [(0, 0), (10, 0), (10, 10), (0, 10), (0, 0)] 2 7,
        AddPrismTriangulated [(20, 0), (30, 0), (30, 10), (20, 10), (20, 0)] 2 3]"]
  show ?thesis
    by (elim conjE) simp
qed

section \<open>Evaluation of the double arithmetic\<close>

text \<open>
  \<open>round64\<close> finds the binade of its argument with a logarithm.  For a given argument the
  binade is fixed by two comparisons with powers of two, after which the rounding is a
  computation on rationals.
\<close>

lemma pow2_powr: "pow2 k = 2 powr (real_of_int k)"
  by (simp add: pow2_def powr_int)

lemma floor_log2:
  assumes "pow2 k \<le> a" and "a < pow2 (k + 1)"
  shows "\<lfloor>log 2 a\<rfloor> = k"
proof -
  have "0 < pow2 k" by (simp add: pow2_def)
  with assms(1) have pos: "0 < a" by linarith
  from assms have "2 powr (real_of_int k) \<le> a" and "a < 2 powr (real_of_int k + 1)"
    by (simp_all only: pow2_powr of_int_add of_int_1)
  with pos show ?thesis by (simp add: floor_log_eq_powr_iff)
qed

lemma round64_at:
  assumes "x \<noteq> 0" and "pow2 k \<le> \<bar>x\<bar>" and "\<bar>x\<bar> < pow2 (k + 1)"
  shows "round64 x =
     (let u = pow2 (max k (- 1022) - 52);
          r = of_int (roundHalfEven (\<bar>x\<bar> / u)) * u
      in if r \<ge> 2 ^ 1024 then (if x > 0 then PInf else NInf)
         else Fin (if x > 0 then r else - r))"
  using assms(1) unfolding round64_def Let_def
  by (simp only: floor_log2 [OF assms(2,3)] if_False)

lemma round64_not_NaN: "round64 x \<noteq> NaN"
  by (simp add: round64_def Let_def)

lemma roundHalfEven_up:
  assumes "of_int n + 1 / 2 < q" and "q < of_int n + 1"
  shows "roundHalfEven q = n + 1"
proof -
  from assms have "\<lfloor>q\<rfloor> = n" by (simp add: floor_eq_iff)
  with assms show ?thesis by (simp add: roundHalfEven_def Let_def)
qed

text \<open>The literal \<open>1e-10\<close> and the small integers, which are doubles.\<close>

lemma round64_eps:
  "round64 (1 / 10 ^ 10) = Fin (7737125245533627 / 77371252455336267181195264)"
  using round64_at [of "1 / 10 ^ 10" "- 34"] by (simp add: pow2_def roundHalfEven_def Let_def)

lemma round64_0: "round64 0 = Fin 0"
  by (simp add: round64_def)

lemma round64_1: "round64 1 = Fin 1"
  using round64_at [of 1 0] by (simp add: pow2_def roundHalfEven_def Let_def)

lemma round64_m1: "round64 (- 1) = Fin (- 1)"
  using round64_at [of "- 1" 0] by (simp add: pow2_def roundHalfEven_def Let_def)

lemma round64_2: "round64 2 = Fin 2"
  using round64_at [of 2 1] by (simp add: pow2_def roundHalfEven_def Let_def)

section \<open>Verification: line bufferer\<close>

lemma length_offsetPairs:
  "length (concat (map (offsetPair coords hw) xs))
     = length (filter (\<lambda>i. \<not> flt (tangentLength coords i) (round64 (1 / 10 ^ 10))) xs)"
  by (induction xs) (simp_all add: offsetPair_def Let_def split: prod.splits)

lemma bufferLineString_count:
  assumes "2 \<le> length coords"
  shows "length (bufferLineString coords w) = leftCount coords - 1"
  using assms by (simp add: bufferLineString_def Let_def leftCount_def length_offsetPairs)

lemma tangent_two_points:
  "tangent [(x0, y0), (x1, y1)] 0 = (fsub x1 x0, fsub y1 y0)"
  "tangent [(x0, y0), (x1, y1)] (Suc 0) = (fsub x1 x0, fsub y1 y0)"
  by (simp_all add: tangent_def)

lemma upt_two: "[0..<2] = [0, Suc 0]"
  by (simp add: upt_rec)

lemma bufferLineString_two_points:
  "bufferLineString [(x0, y0), (x1, y1)] w =
     (let dx = fsub x1 x0;
          dy = fsub y1 y0;
          len = fsqrt (fadd (fmul dx dx) (fmul dy dy));
          perpX = fmul (fdiv (fneg dy) len) (fdiv w (Fin 2));
          perpY = fmul (fdiv dx len) (fdiv w (Fin 2))
      in if flt len (round64 (1 / 10 ^ 10)) then []
         else [[(fadd x0 perpX, fadd y0 perpY), (fsub x0 perpX, fsub y0 perpY),
                (fsub x1 perpX, fsub y1 perpY), (fadd x1 perpX, fadd y1 perpY)]])"
  by (simp add: bufferLineString_def offsetPair_def tangentLength_def tangent_two_points
        Let_def upt_two)

text \<open>
  C7 (as amended).  For a polyline of two points and every width \<open>w\<close>, with
  \<open>dx = x1 - x0\<close>, \<open>dy = y1 - y0\<close> and \<open>len = sqrt(dx*dx + dy*dy)\<close> as the double
  arithmetic computes them: when \<open>len\<close> is not below \<open>1e-10\<close>, \<open>bufferLineString\<close> returns
  exactly one quadrilateral, in the order \<open>left[0], right[0], right[1], left[1]\<close>, whose
  corners are the two endpoints moved by plus and by minus the same offset
  \<open>(-dy / len * (w / 2), dx / len * (w / 2))\<close>, every operation rounded to a double; when
  \<open>len\<close> is below \<open>1e-10\<close> it returns none.  In general, for at least two points, the
  function returns \<open>leftCount - 1\<close> quadrilaterals when \<open>leftCount\<close> is at least one, and
  none when it is zero.
\<close>

theorem bufferLineString_quads:
  "bufferLineString [(x0, y0), (x1, y1)] w =
     (let dx = fsub x1 x0;
          dy = fsub y1 y0;
          len = fsqrt (fadd (fmul dx dx) (fmul dy dy));
          perpX = fmul (fdiv (fneg dy) len) (fdiv w (Fin 2));
          perpY = fmul (fdiv dx len) (fdiv w (Fin 2));
          left0 = (fadd x0 perpX, fadd y0 perpY);
          right0 = (fsub x0 perpX, fsub y0 perpY);
          left1 = (fadd x1 perpX, fadd y1 perpY);
          right1 = (fsub x1 perpX, fsub y1 perpY)
      in if flt len (round64 (1 / 10 ^ 10)) then [] else [[left0, right0, right1, left1]])
   \<and> (2 \<le> length coords \<longrightarrow>
        int (length (bufferLineString coords w))
          = (if leftCount coords = 0 then 0 else int (leftCount coords) - 1))"
proof (intro conjI impI)
  show "bufferLineString [(x0, y0), (x1, y1)] w =
     (let dx = fsub x1 x0;
          dy = fsub y1 y0;
          len = fsqrt (fadd (fmul dx dx) (fmul dy dy));
          perpX = fmul (fdiv (fneg dy) len) (fdiv w (Fin 2));
          perpY = fmul (fdiv dx len) (fdiv w (Fin 2));
          left0 = (fadd x0 perpX, fadd y0 perpY);
          right0 = (fsub x0 perpX, fsub y0 perpY);
          left1 = (fadd x1 perpX, fadd y1 perpY);
          right1 = (fsub x1 perpX, fsub y1 perpY)
      in if flt len (round64 (1 / 10 ^ 10)) then [] else [[left0, right0, right1, left1]])"
    by (simp add: bufferLineString_two_points Let_def)
next
  assume "2 \<le> length coords"
  then have "length (bufferLineString coords w) = leftCount coords - 1"
    by (rule bufferLineString_count)
  then show "int (length (bufferLineString coords w))
          = (if leftCount coords = 0 then 0 else int (leftCount coords) - 1)"
    by simp
qed

text \<open>
  A segment of length 1 along the first axis, buffered to width 2: one quadrilateral,
  with corners one unit to the left and to the right of the endpoints; both points pass
  the length test.
\<close>

theorem bufferLineString_quads_witness:
  "bufferLineString [(Fin 0, Fin 0), (Fin 1, Fin 0)] (Fin 2)
     = [[(Fin 0, Fin 1), (Fin 0, Fin (- 1)), (Fin 1, Fin (- 1)), (Fin 1, Fin 1)]]
   \<and> 2 \<le> length [(Fin 0, Fin 0), (Fin 1, Fin 0)]
   \<and> leftCount [(Fin 0, Fin 0), (Fin 1, Fin 0)] = 2
   \<and> length (bufferLineString [(Fin 0, Fin 0), (Fin 1, Fin 0)] (Fin 2)) = 1"
  using bufferLineString_quads [where ?x0.0 = "Fin 0" and ?y0.0 = "Fin 0" and ?x1.0 = "Fin 1"
      and ?y1.0 = "Fin 0" and w = "Fin 2" and coords = "[(Fin 0, Fin 0), (Fin 1, Fin 0)]"]
  by (simp add: Let_def fsub_def round64_0 round64_1 round64_m1 round64_2
        round64_eps [simplified] leftCount_def tangentLength_def tangent_two_points upt_two)

lemma round64_big: "round64 (2 ^ 600) = Fin (2 ^ 600)"
  using round64_at [of "2 ^ 600" 600] by (simp add: pow2_def roundHalfEven_def Let_def)

lemma fmul_big: "fmul (Fin (2 ^ 600)) (Fin (2 ^ 600)) = PInf"
  using round64_at [of "2 ^ 600 * 2 ^ 600" 1200] by (simp add: pow2_def roundHalfEven_def Let_def)

lemma sqrt_2_bounds:
  "6369051672525772 + 1 / 2 < sqrt 2 * 2 ^ 52" "sqrt 2 * 2 ^ 52 < 6369051672525773"
proof -
  have "((6369051672525772 + 1 / 2) / 2 ^ 52)\<^sup>2 < (2 :: real)" by (simp add: power2_eq_square)
  then have "(6369051672525772 + 1 / 2) / 2 ^ 52 < sqrt 2" by (rule real_less_rsqrt)
  then show "6369051672525772 + 1 / 2 < sqrt 2 * 2 ^ 52" by (simp add: field_simps)
  have "(2 :: real) < (6369051672525773 / 2 ^ 52)\<^sup>2" by (simp add: power2_eq_square)
  then have "sqrt 2 < 6369051672525773 / 2 ^ 52" by (intro real_less_lsqrt) simp_all
  then show "sqrt 2 * 2 ^ 52 < 6369051672525773" by (simp add: field_simps)
qed

lemma round64_sqrt_2: "round64 (sqrt 2) = Fin (6369051672525773 / 4503599627370496)"
proof -
  have lo: "1 \<le> sqrt 2" by simp
  have "sqrt 2 < sqrt 4" by (simp only: real_sqrt_less_iff)
  then have hi: "sqrt 2 < 2" by simp
  have "roundHalfEven (sqrt 2 * 2 ^ 52) = 6369051672525772 + 1"
    by (rule roundHalfEven_up) (use sqrt_2_bounds in simp_all)
  then have r: "roundHalfEven (sqrt 2 * 4503599627370496) = 6369051672525773" by simp
  from lo hi show ?thesis
    using round64_at [of "sqrt 2" 0] by (simp add: pow2_def Let_def r)
qed

lemma fdiv_m1_sqrt2:
  "fdiv (Fin (- 1)) (Fin (6369051672525773 / 4503599627370496))
     = Fin (- (1592262918131443 / 2251799813685248))"
  using round64_at [of "- 1 / (6369051672525773 / 4503599627370496)" "- 1"]
  by (simp add: pow2_def roundHalfEven_def Let_def)

lemma fdiv_1_sqrt2:
  "fdiv (Fin 1) (Fin (6369051672525773 / 4503599627370496))
     = Fin (1592262918131443 / 2251799813685248)"
  using round64_at [of "1 / (6369051672525773 / 4503599627370496)" "- 1"]
  by (simp add: pow2_def roundHalfEven_def Let_def)

lemma round64_p:
  "round64 (1592262918131443 / 2251799813685248) = Fin (1592262918131443 / 2251799813685248)"
  using round64_at [of "1592262918131443 / 2251799813685248" "- 1"]
  by (simp add: pow2_def roundHalfEven_def Let_def)

lemma round64_mp:
  "round64 (- (1592262918131443 / 2251799813685248))
     = Fin (- (1592262918131443 / 2251799813685248))"
  using round64_at [of "- (1592262918131443 / 2251799813685248)" "- 1"]
  by (simp add: pow2_def roundHalfEven_def Let_def)

lemma fadd_1_p:
  "fadd (Fin 1) (Fin (1592262918131443 / 2251799813685248))
     = Fin (3844062731816691 / 2251799813685248)"
  using round64_at [of "1 + 1592262918131443 / 2251799813685248" 0]
  by (simp add: pow2_def roundHalfEven_def Let_def)

lemma fadd_1_mp:
  "fadd (Fin 1) (Fin (- (1592262918131443 / 2251799813685248)))
     = Fin (659536895553805 / 2251799813685248)"
  using round64_at [of "1 + - (1592262918131443 / 2251799813685248)" "- 2"]
  by (simp add: pow2_def roundHalfEven_def Let_def)

lemmas buffer_eval = bufferLineString_two_points Let_def fsub_def round64_0 round64_1
  round64_m1 round64_2 round64_eps [simplified]

lemma bufferLineString_overflow:
  "bufferLineString [(Fin 0, Fin 0), (Fin (2 ^ 600), Fin 0)] (Fin 2)
     = [[(Fin 0, Fin 0), (Fin 0, Fin 0), (Fin (2 ^ 600), Fin 0), (Fin (2 ^ 600), Fin 0)]]"
  by (simp add: buffer_eval round64_big [simplified] fmul_big [simplified])

lemma bufferLineString_repeated_point:
  "bufferLineString [(Fin 0, Fin 0), (Fin 0, Fin 0)] (Fin 2) = []
   \<and> leftCount [(Fin 0, Fin 0), (Fin 0, Fin 0)] = 0"
  by (simp add: buffer_eval leftCount_def tangentLength_def tangent_two_points upt_two)

lemma bufferLineString_diagonal:
  "bufferLineString [(Fin 0, Fin 0), (Fin 1, Fin 1)] (Fin 2)
     = [[(Fin (- (1592262918131443 / 2251799813685248)), Fin (1592262918131443 / 2251799813685248)),
         (Fin (1592262918131443 / 2251799813685248), Fin (- (1592262918131443 / 2251799813685248))),
         (Fin (3844062731816691 / 2251799813685248), Fin (659536895553805 / 2251799813685248)),
         (Fin (659536895553805 / 2251799813685248), Fin (3844062731816691 / 2251799813685248))]]"
  by (simp add: buffer_eval round64_sqrt_2 fdiv_m1_sqrt2 [simplified] fdiv_1_sqrt2 [simplified]
        round64_p round64_mp fadd_1_p [simplified] fadd_1_mp [simplified])

text \<open>
  The offset is not at distance \<open>w / 2\<close> on every segment, and the count is not
  \<open>leftCount - 1\<close> on every polyline of two points.  For the segment from \<open>(0, 0)\<close> to
  \<open>(2^600, 0)\<close> the product \<open>dx * dx\<close> overflows, \<open>len\<close> is infinite and the offset is
  zero: the four corners are the endpoints themselves.  For the segment from \<open>(0, 0)\<close> to
  \<open>(1, 1)\<close> and width 2 the corner \<open>left[0]\<close> is
  \<open>(-0.7071067811865475, 0.7071067811865475)\<close>, whose distance from \<open>(0, 0)\<close> is not 1.
  For the polyline that repeats the point \<open>(0, 0)\<close> no point passes the length test:
  \<open>leftCount\<close> is 0 and the function returns no quadrilateral, not \<open>-1\<close> of them.
\<close>

theorem bufferLineString_offset_counterexample:
  "bufferLineString [(Fin 0, Fin 0), (Fin (2 ^ 600), Fin 0)] (Fin 2)
     = [[(Fin 0, Fin 0), (Fin 0, Fin 0), (Fin (2 ^ 600), Fin 0), (Fin (2 ^ 600), Fin 0)]]
   \<and> distance (0, 0) (0, 0) \<noteq> 2 / 2
   \<and> bufferLineString [(Fin 0, Fin 0), (Fin 1, Fin 1)] (Fin 2)
     = [[(Fin (- (1592262918131443 / 2251799813685248)), Fin (1592262918131443 / 2251799813685248)),
         (Fin (1592262918131443 / 2251799813685248), Fin (- (1592262918131443 / 2251799813685248))),
         (Fin (3844062731816691 / 2251799813685248), Fin (659536895553805 / 2251799813685248)),
         (Fin (659536895553805 / 2251799813685248), Fin (3844062731816691 / 2251799813685248))]]
   \<and> distance (- (1592262918131443 / 2251799813685248), 1592262918131443 / 2251799813685248)
        (0, 0) \<noteq> 2 / 2
   \<and> bufferLineString [(Fin 0, Fin 0), (Fin 0, Fin 0)] (Fin 2) = []
   \<and> leftCount [(Fin 0, Fin 0), (Fin 0, Fin 0)] = 0
   \<and> int (length (bufferLineString [(Fin 0, Fin 0), (Fin 0, Fin 0)] (Fin 2)))
        \<noteq> int (leftCount [(Fin 0, Fin 0), (Fin 0, Fin 0)]) - 1"
proof -
  have d0: "distance (0, 0) (0, 0) \<noteq> 2 / 2"
    by (simp add: distance_def)
  have d1: "distance (- (1592262918131443 / 2251799813685248), 1592262918131443 / 2251799813685248)
        (0, 0) \<noteq> 2 / 2"
    by (simp add: distance_def power2_eq_square)
  have z: "int (length (bufferLineString [(Fin 0, Fin 0), (Fin 0, Fin 0)] (Fin 2)))
        \<noteq> int (leftCount [(Fin 0, Fin 0), (Fin 0, Fin 0)]) - 1"
    by (simp add: bufferLineString_repeated_point)
  from d0 d1 z bufferLineString_overflow bufferLineString_diagonal bufferLineString_repeated_point
  show ?thesis by (intro conjI) (simp_all only: simp_thms)
qed

section \<open>Verification: raw building height\<close>

text \<open>
  C4.  The fallback ends with the \<open>building:levels\<close> tag times 3 metres per level.
  \<open>getBuildingHeight\<close> multiplies by 3 when the tag value is a number and returns the
  parsed number as it is when the tag value is a string, the form in which tags arrive:
  for a building with five levels and a default height of 10 it returns 5 for the string
  and 15 for the number.
\<close>

theorem getBuildingHeight_levels_not_scaled:
  "getBuildingHeight
     \<lparr> geometry = Polygon [[(0, 0), (1, 0), (1, 1), (0, 1), (0, 0)]],
       tags = [''building:levels'' \<mapsto> TagString ''5''] \<rparr> 10 = 5
   \<and> getBuildingHeight
     \<lparr> geometry = Polygon [[(0, 0), (1, 0), (1, 1), (0, 1), (0, 0)]],
       tags = [''building:levels'' \<mapsto> TagNumber 5] \<rparr> 10 = 15"
  by (simp add: getBuildingHeight_def matchDecimal_def parseFloat_def digitsValue_def isDigit_def Let_def)

section \<open>Verification: height scaling of the buildings layer\<close>

lemma fmax_cases:
  assumes "x \<noteq> NaN" and "y \<noteq> NaN"
  shows "fmax x y \<noteq> NaN" and "fmax x y = x \<or> fmax x y = y"
    and "\<not> flt (fmax x y) x" and "\<not> flt (fmax x y) y"
  using assms by (cases x; cases y; simp add: fmax_def)+

lemma flt_trans:
  assumes "\<not> flt a b" and "\<not> flt b c" and "a \<noteq> NaN" and "b \<noteq> NaN" and "c \<noteq> NaN"
  shows "\<not> flt a c"
  using assms by (cases a; cases b; cases c; simp)

lemma rawHeight_not_NaN: "rawHeight f dh \<noteq> NaN"
  by (simp add: rawHeight_def round64_not_NaN)

lemma fold_fmax:
  assumes "m0 \<noteq> NaN"
  shows "fold (\<lambda>feature m. fmax m (rawHeight feature dh)) fs m0 \<noteq> NaN
     \<and> (fold (\<lambda>feature m. fmax m (rawHeight feature dh)) fs m0 = m0
         \<or> (\<exists>f \<in> set fs. fold (\<lambda>feature m. fmax m (rawHeight feature dh)) fs m0 = rawHeight f dh))
     \<and> \<not> flt (fold (\<lambda>feature m. fmax m (rawHeight feature dh)) fs m0) m0
     \<and> (\<forall>f \<in> set fs. \<not> flt (fold (\<lambda>feature m. fmax m (rawHeight feature dh)) fs m0) (rawHeight f dh))"
  using assms
proof (induction fs arbitrary: m0)
  case Nil
  then show ?case by (cases m0) simp_all
next
  case (Cons f fs)
  let ?m1 = "fmax m0 (rawHeight f dh)"
  let ?M = "fold (\<lambda>feature m. fmax m (rawHeight feature dh)) fs ?m1"
  note mx = fmax_cases [OF Cons.prems rawHeight_not_NaN [of f dh]]
  note ih = Cons.IH [OF mx(1)]
  from ih have nn: "?M \<noteq> NaN" by (elim conjE)
  from ih have mem: "?M = ?m1 \<or> (\<exists>g \<in> set fs. ?M = rawHeight g dh)" by (elim conjE)
  from ih have ge1: "\<not> flt ?M ?m1" by (elim conjE)
  from ih have ub: "\<forall>g \<in> set fs. \<not> flt ?M (rawHeight g dh)" by (elim conjE)
  from ge1 mx(3) nn mx(1) Cons.prems have a: "\<not> flt ?M m0" by (rule flt_trans)
  from ge1 mx(4) nn mx(1) rawHeight_not_NaN have b: "\<not> flt ?M (rawHeight f dh)" by (rule flt_trans)
  from mem mx(2) have c: "?M = m0 \<or> (\<exists>g \<in> set (f # fs). ?M = rawHeight g dh)" by auto
  from nn a b c ub show ?case by simp
qed

lemma maxBuildingHeight_max:
  "(maxBuildingHeight fs dh = Fin 0 \<or> (\<exists>f \<in> set fs. maxBuildingHeight fs dh = rawHeight f dh))
   \<and> \<not> flt (maxBuildingHeight fs dh) (Fin 0)
   \<and> (\<forall>f \<in> set fs. \<not> flt (maxBuildingHeight fs dh) (rawHeight f dh))"
  using fold_fmax [of "Fin 0" dh fs] by (simp add: maxBuildingHeight_def)

lemma buildingStep_cases:
  "buildingStep box config scale f =
     (if hasRing f then
        Inr (case geometry f of
               LineString line \<Rightarrow> []
             | Polygon rings \<Rightarrow>
                 (case rings of
                    [] \<Rightarrow> []
                  | exterior # others \<Rightarrow>
                      if length exterior > 500 then []
                      else [PrismCall (closeRing (map (toModelXY box config) exterior))
                              (Fin (baseThickness config))
                              (fadd (Fin (baseThickness config))
                                 (fmul (rawHeight f (defaultHeight config)) scale))]))
      else Inl TypeError)"
  by (auto simp add: buildingStep_def hasRing_def Let_def split: geometry.splits list.splits)

lemma buildingsLoop_calls:
  "buildingsLoop box config scale fs =
     (if \<forall>f \<in> set fs. hasRing f then
        Inr (concat (map (\<lambda>f. case geometry f of
               LineString line \<Rightarrow> []
             | Polygon rings \<Rightarrow>
                 (case rings of
                    [] \<Rightarrow> []
                  | exterior # others \<Rightarrow>
                      if length exterior > 500 then []
                      else [PrismCall (closeRing (map (toModelXY box config) exterior))
                              (Fin (baseThickness config))
                              (fadd (Fin (baseThickness config))
                                 (fmul (rawHeight f (defaultHeight config)) scale))])) fs))
      else Inl TypeError)"
  by (induction fs) (simp_all add: buildingStep_cases)

text \<open>
  C5 (as amended).  With layer type \<open>buildings\<close>, both pipelines take the largest \<open>m\<close> of
  0 and the raw heights of all features (so \<open>m\<close> is 0 when no raw height is positive) and
  use the scale factor \<open>maxHeight / m\<close> when \<open>m\<close> is positive and 1 otherwise.  When every
  polygon feature has a non-empty exterior ring, they call the prism builder once for
  each polygon feature whose exterior ring has at most 500 points, in the order of the
  features, on the projected and closed ring, with \<open>z0 = baseThickness\<close> and
  \<open>z1 = baseThickness + rawHeight * scale\<close>; otherwise they throw.  All of this is in
  double arithmetic, every operation rounded: for a building whose raw height is \<open>m\<close>
  (when positive) the top is \<open>baseThickness + m * (maxHeight / m)\<close>.
\<close>

theorem buildings_height_scaling:
  "(let dh = defaultHeight config;
        m = maxBuildingHeight features dh;
        scale = heightScale config features;
        z0 = Fin (baseThickness config);
        calls = concat (map (\<lambda>f. case geometry f of
               LineString line \<Rightarrow> []
             | Polygon rings \<Rightarrow>
                 (case rings of
                    [] \<Rightarrow> []
                  | exterior # others \<Rightarrow>
                      if length exterior > 500 then []
                      else [PrismCall (closeRing (map (toModelXY box config) exterior))
                              z0 (fadd z0 (fmul (rawHeight f dh) scale))])) features)
    in (m = Fin 0 \<or> (\<exists>f \<in> set features. m = rawHeight f dh))
       \<and> \<not> flt m (Fin 0)
       \<and> (\<forall>f \<in> set features. \<not> flt m (rawHeight f dh))
       \<and> scale = (if flt (Fin 0) m then fdiv (Fin (maxHeight config)) m else Fin 1)
       \<and> processLayerBuildings features box config
           = (if \<forall>f \<in> set features. hasRing f then Inr calls else Inl TypeError)
       \<and> scaleCoordinatesBuildings features box config
           = (if \<forall>f \<in> set features. hasRing f then Inr calls else Inl TypeError)
       \<and> (\<forall>f \<in> set features. flt (Fin 0) m \<and> rawHeight f dh = m \<longrightarrow>
            fadd z0 (fmul (rawHeight f dh) scale)
              = fadd z0 (fmul m (fdiv (Fin (maxHeight config)) m))))"
proof -
  let ?dh = "defaultHeight config"
  let ?m = "maxBuildingHeight features ?dh"
  let ?s = "heightScale config features"
  note mx = maxBuildingHeight_max [of features ?dh]
  from mx have 1: "?m = Fin 0 \<or> (\<exists>f \<in> set features. ?m = rawHeight f ?dh)" by (elim conjE)
  from mx have 2: "\<not> flt ?m (Fin 0)" by (elim conjE)
  from mx have 3: "\<forall>f \<in> set features. \<not> flt ?m (rawHeight f ?dh)" by (elim conjE)
  have 4: "?s = (if flt (Fin 0) ?m then fdiv (Fin (maxHeight config)) ?m else Fin 1)"
    by (simp add: heightScale_def Let_def)
  note 5 = buildingsLoop_calls [of box config ?s features, folded processLayerBuildings_def]
  note 6 = buildingsLoop_calls [of box config ?s features, folded scaleCoordinatesBuildings_def]
  have 7: "\<forall>f \<in> set features. flt (Fin 0) ?m \<and> rawHeight f ?dh = ?m \<longrightarrow>
      fadd (Fin (baseThickness config)) (fmul (rawHeight f ?dh) ?s)
        = fadd (Fin (baseThickness config)) (fmul ?m (fdiv (Fin (maxHeight config)) ?m))"
    by (simp add: 4)
  show ?thesis
    unfolding Let_def using 1 2 3 4 5 6 7 by (intro conjI)
qed

lemma round64_5: "round64 5 = Fin 5"
  using round64_at [of 5 2] by (simp add: pow2_def roundHalfEven_def Let_def)

lemma round64_7: "round64 7 = Fin 7"
  using round64_at [of 7 2] by (simp add: pow2_def roundHalfEven_def Let_def)

lemma round64_10: "round64 10 = Fin 10"
  using round64_at [of 10 3] by (simp add: pow2_def roundHalfEven_def Let_def)

lemma round64_12: "round64 12 = Fin 12"
  using round64_at [of 12 3] by (simp add: pow2_def roundHalfEven_def Let_def)

lemma round64_20: "round64 20 = Fin 20"
  using round64_at [of 20 4] by (simp add: pow2_def roundHalfEven_def Let_def)

lemma round64_22: "round64 22 = Fin 22"
  using round64_at [of 22 4] by (simp add: pow2_def roundHalfEven_def Let_def)

lemma round64_40: "round64 40 = Fin 40"
  using round64_at [of 40 5] by (simp add: pow2_def roundHalfEven_def Let_def)

lemma round64_half: "round64 (1 / 2) = Fin (1 / 2)"
  using round64_at [of "1 / 2" "- 1"] by (simp add: pow2_def roundHalfEven_def Let_def)

lemma round64_m5: "round64 (- 5) = Fin (- 5)"
  using round64_at [of "- 5" 2] by (simp add: pow2_def roundHalfEven_def Let_def)

lemma round64_m4: "round64 (- 4) = Fin (- 4)"
  using round64_at [of "- 4" 2] by (simp add: pow2_def roundHalfEven_def Let_def)

lemma round64_77: "round64 77 = Fin 77"
  using round64_at [of 77 6] by (simp add: pow2_def roundHalfEven_def Let_def)

lemma fdiv_20_77: "fdiv (Fin 20) (Fin 77) = Fin (2339532273958699 / 9007199254740992)"
  using round64_at [of "20 / 77" "- 2"] by (simp add: pow2_def roundHalfEven_def Let_def)

lemma fmul_77: "fmul (Fin 77) (Fin (2339532273958699 / 9007199254740992)) = Fin (5629499534213119 / 281474976710656)"
  using round64_at [of "77 * (2339532273958699 / 9007199254740992)" 4]
  by (simp add: pow2_def roundHalfEven_def Let_def)

lemma fadd_2: "fadd (Fin 2) (Fin (5629499534213119 / 281474976710656)) = Fin (6192449487634431 / 281474976710656)"
  using round64_at [of "2 + 5629499534213119 / 281474976710656" 4] by (simp add: pow2_def roundHalfEven_def Let_def)

lemmas height_eval = getBuildingHeight_def matchDecimal_def parseFloat_def digitsValue_def
  isDigit_def Let_def

text \<open>
  Three buildings with raw heights 10, 20 and 40, a maximal height of 20 and a base
  thickness of 2: the scale factor is \<open>0.5\<close> and the three prisms go from 2 to 7, 12
  and 22.
\<close>

theorem buildings_height_scaling_witness:
  "hasRing \<lparr> geometry = Polygon [[(0, 0), (1, 0), (1, 1), (0, 1), (0, 0)]], tags = [''height'' \<mapsto> TagString ''10''] \<rparr>
   \<and> hasRing \<lparr> geometry = Polygon [[(2, 0), (3, 0), (3, 1), (2, 1), (2, 0)]], tags = [''height'' \<mapsto> TagString ''20''] \<rparr>
   \<and> hasRing \<lparr> geometry = Polygon [[(4, 0), (5, 0), (5, 1), (4, 1), (4, 0)]], tags = [''height'' \<mapsto> TagString ''40''] \<rparr>
   \<and> heightScale \<lparr> targetSize = 180, maxHeight = 20, defaultHeight = 40, baseThickness = 2 \<rparr>
     [\<lparr> geometry = Polygon [[(0, 0), (1, 0), (1, 1), (0, 1), (0, 0)]], tags = [''height'' \<mapsto> TagString ''10''] \<rparr>,
      \<lparr> geometry = Polygon [[(2, 0), (3, 0), (3, 1), (2, 1), (2, 0)]], tags = [''height'' \<mapsto> TagString ''20''] \<rparr>,
      \<lparr> geometry = Polygon [[(4, 0), (5, 0), (5, 1), (4, 1), (4, 0)]], tags = [''height'' \<mapsto> TagString ''40''] \<rparr>]
     = Fin (1 / 2)
   \<and> processLayerBuildings
         [\<lparr> geometry = Polygon [[(0, 0), (1, 0), (1, 1), (0, 1), (0, 0)]], tags = [''height'' \<mapsto> TagString ''10''] \<rparr>,
          \<lparr> geometry = Polygon [[(2, 0), (3, 0), (3, 1), (2, 1), (2, 0)]], tags = [''height'' \<mapsto> TagString ''20''] \<rparr>,
          \<lparr> geometry = Polygon [[(4, 0), (5, 0), (5, 1), (4, 1), (4, 0)]], tags = [''height'' \<mapsto> TagString ''40''] \<rparr>]
         (10, 10, 0, 0)
         \<lparr> targetSize = 180, maxHeight = 20, defaultHeight = 40, baseThickness = 2 \<rparr>
       = Inr [PrismCall (closeRing (map (toModelXY (10, 10, 0, 0)
                  \<lparr> targetSize = 180, maxHeight = 20, defaultHeight = 40, baseThickness = 2 \<rparr>)
                  [(0, 0), (1, 0), (1, 1), (0, 1), (0, 0)])) (Fin 2) (Fin 7),
              PrismCall (closeRing (map (toModelXY (10, 10, 0, 0)
                  \<lparr> targetSize = 180, maxHeight = 20, defaultHeight = 40, baseThickness = 2 \<rparr>)
                  [(2, 0), (3, 0), (3, 1), (2, 1), (2, 0)])) (Fin 2) (Fin 12),
              PrismCall (closeRing (map (toModelXY (10, 10, 0, 0)
                  \<lparr> targetSize = 180, maxHeight = 20, defaultHeight = 40, baseThickness = 2 \<rparr>)
                  [(4, 0), (5, 0), (5, 1), (4, 1), (4, 0)])) (Fin 2) (Fin 22)]"
proof -
  let ?cfg = "\<lparr> targetSize = 180, maxHeight = 20, defaultHeight = 40, baseThickness = 2 \<rparr>"
  let ?f10 = "\<lparr> geometry = Polygon [[(0, 0), (1, 0), (1, 1), (0, 1), (0, 0)]], tags = [''height'' \<mapsto> TagString ''10''] \<rparr>"
  let ?f20 = "\<lparr> geometry = Polygon [[(2, 0), (3, 0), (3, 1), (2, 1), (2, 0)]], tags = [''height'' \<mapsto> TagString ''20''] \<rparr>"
  let ?f40 = "\<lparr> geometry = Polygon [[(4, 0), (5, 0), (5, 1), (4, 1), (4, 0)]], tags = [''height'' \<mapsto> TagString ''40''] \<rparr>"
  let ?fs = "[?f10, ?f20, ?f40]"
  have raw: "rawHeight ?f10 40 = Fin 10" "rawHeight ?f20 40 = Fin 20" "rawHeight ?f40 40 = Fin 40"
    by (simp_all add: rawHeight_def height_eval round64_10 round64_20 round64_40)
  have M: "maxBuildingHeight ?fs 40 = Fin 40"
    by (simp add: maxBuildingHeight_def raw fmax_def)
  have rings: "hasRing ?f10" "hasRing ?f20" "hasRing ?f40"
    by (simp_all add: hasRing_def)
  note scaling = buildings_height_scaling [where config = ?cfg and features = ?fs and box = "(10, 10, 0, 0)", unfolded Let_def]
  from scaling have s: "heightScale ?cfg ?fs
      = (if flt (Fin 0) (maxBuildingHeight ?fs (defaultHeight ?cfg))
         then fdiv (Fin (maxHeight ?cfg)) (maxBuildingHeight ?fs (defaultHeight ?cfg)) else Fin 1)"
    by (elim conjE)
  then have half: "heightScale ?cfg ?fs = Fin (1 / 2)"
    by (simp add: M round64_half)
  from scaling have "processLayerBuildings ?fs (10, 10, 0, 0) ?cfg
      = (if \<forall>f \<in> set ?fs. hasRing f then
           Inr (concat (map (\<lambda>f. case geometry f of
               LineString line \<Rightarrow> []
             | Polygon rings \<Rightarrow>
                 (case rings of
                    [] \<Rightarrow> []
                  | exterior # others \<Rightarrow>
                      if length exterior > 500 then []
                      else [PrismCall (closeRing (map (toModelXY (10, 10, 0, 0) ?cfg) exterior))
                              (Fin (baseThickness ?cfg))
                              (fadd (Fin (baseThickness ?cfg))
                                 (fmul (rawHeight f (defaultHeight ?cfg)) (heightScale ?cfg ?fs)))])) ?fs))
         else Inl TypeError)"
    by (elim conjE)
  then have run: "processLayerBuildings ?fs (10, 10, 0, 0) ?cfg
       = Inr [PrismCall (closeRing (map (toModelXY (10, 10, 0, 0) ?cfg)
                  [(0, 0), (1, 0), (1, 1), (0, 1), (0, 0)])) (Fin 2) (Fin 7),
              PrismCall (closeRing (map (toModelXY (10, 10, 0, 0) ?cfg)
                  [(2, 0), (3, 0), (3, 1), (2, 1), (2, 0)])) (Fin 2) (Fin 12),
              PrismCall (closeRing (map (toModelXY (10, 10, 0, 0) ?cfg)
                  [(4, 0), (5, 0), (5, 1), (4, 1), (4, 0)])) (Fin 2) (Fin 22)]"
    by (simp add: hasRing_def raw half round64_5 round64_7 round64_10 round64_12 round64_20 round64_22)
  from rings half run show ?thesis by (intro conjI)
qed

lemmas pipeline_eval = processLayerBuildings_def buildingStep_def heightScale_def
  maxBuildingHeight_def rawHeight_def fmax_def height_eval

text \<open>
  The maximum is not the maximum over the set alone: for one building whose \<open>height\<close>
  tag is the number \<open>-5\<close> the raw height is \<open>-5\<close>, the pipeline's maximum is 0 and the
  scale factor is 1, not \<open>20 / -5\<close>.  The top of the tallest building is not always
  \<open>baseThickness + maxHeight\<close>: for one building of raw height 77, a maximal height of
  20 and a base thickness of 2, the scale factor is the double nearest to \<open>20 / 77\<close>, the
  height \<open>77 * (20 / 77)\<close> is \<open>19.999999999999996\<close> and the top is
  \<open>21.999999999999996\<close>, not 22.  Not every building is extruded: a ring of 501 points
  is passed over.  And the loop does not always return: a polygon whose exterior ring is
  empty makes it throw.
\<close>

theorem buildings_height_scaling_counterexample:
  "rawHeight \<lparr> geometry = Polygon [[(0, 0), (1, 0), (1, 1), (0, 1), (0, 0)]],
                tags = [''height'' \<mapsto> TagNumber (- 5)] \<rparr> 10 = Fin (- 5)
   \<and> maxBuildingHeight [\<lparr> geometry = Polygon [[(0, 0), (1, 0), (1, 1), (0, 1), (0, 0)]],
                tags = [''height'' \<mapsto> TagNumber (- 5)] \<rparr>] 10 = Fin 0
   \<and> heightScale \<lparr> targetSize = 180, maxHeight = 20, defaultHeight = 10, baseThickness = 2 \<rparr>
        [\<lparr> geometry = Polygon [[(0, 0), (1, 0), (1, 1), (0, 1), (0, 0)]],
           tags = [''height'' \<mapsto> TagNumber (- 5)] \<rparr>] = Fin 1
   \<and> fdiv (Fin 20) (Fin (- 5)) = Fin (- 4)
   \<and> processLayerBuildings
        [\<lparr> geometry = Polygon [[(0, 0), (1, 0), (1, 1), (0, 1), (0, 0)]],
           tags = [''height'' \<mapsto> TagString ''77''] \<rparr>]
        (10, 10, 0, 0)
        \<lparr> targetSize = 180, maxHeight = 20, defaultHeight = 10, baseThickness = 2 \<rparr>
      = Inr [PrismCall (closeRing (map (toModelXY (10, 10, 0, 0)
                \<lparr> targetSize = 180, maxHeight = 20, defaultHeight = 10, baseThickness = 2 \<rparr>)
                [(0, 0), (1, 0), (1, 1), (0, 1), (0, 0)]))
              (Fin 2) (Fin (6192449487634431 / 281474976710656))]
   \<and> Fin (6192449487634431 / 281474976710656) \<noteq> Fin (2 + 20)
   \<and> processLayerBuildings
        [\<lparr> geometry = Polygon [replicate 501 (0, 0)], tags = [''height'' \<mapsto> TagString ''77''] \<rparr>]
        (10, 10, 0, 0)
        \<lparr> targetSize = 180, maxHeight = 20, defaultHeight = 10, baseThickness = 2 \<rparr>
      = Inr []
   \<and> processLayerBuildings
        [\<lparr> geometry = Polygon [[]], tags = [''height'' \<mapsto> TagString ''77''] \<rparr>]
        (10, 10, 0, 0)
        \<lparr> targetSize = 180, maxHeight = 20, defaultHeight = 10, baseThickness = 2 \<rparr>
      = Inl TypeError"
proof (intro conjI)
  show "rawHeight \<lparr> geometry = Polygon [[(0, 0), (1, 0), (1, 1), (0, 1), (0, 0)]],
                tags = [''height'' \<mapsto> TagNumber (- 5)] \<rparr> 10 = Fin (- 5)"
    by (simp add: pipeline_eval round64_m5)
  show "maxBuildingHeight [\<lparr> geometry = Polygon [[(0, 0), (1, 0), (1, 1), (0, 1), (0, 0)]],
                tags = [''height'' \<mapsto> TagNumber (- 5)] \<rparr>] 10 = Fin 0"
    by (simp add: pipeline_eval round64_m5)
  show "heightScale \<lparr> targetSize = 180, maxHeight = 20, defaultHeight = 10, baseThickness = 2 \<rparr>
        [\<lparr> geometry = Polygon [[(0, 0), (1, 0), (1, 1), (0, 1), (0, 0)]],
           tags = [''height'' \<mapsto> TagNumber (- 5)] \<rparr>] = Fin 1"
    by (simp add: pipeline_eval round64_m5)
  show "fdiv (Fin 20) (Fin (- 5)) = Fin (- 4)"
    by (simp add: round64_m4)
  show "processLayerBuildings
        [\<lparr> geometry = Polygon [[(0, 0), (1, 0), (1, 1), (0, 1), (0, 0)]],
           tags = [''height'' \<mapsto> TagString ''77''] \<rparr>]
        (10, 10, 0, 0)
        \<lparr> targetSize = 180, maxHeight = 20, defaultHeight = 10, baseThickness = 2 \<rparr>
      = Inr [PrismCall (closeRing (map (toModelXY (10, 10, 0, 0)
                \<lparr> targetSize = 180, maxHeight = 20, defaultHeight = 10, baseThickness = 2 \<rparr>)
                [(0, 0), (1, 0), (1, 1), (0, 1), (0, 0)]))
              (Fin 2) (Fin (6192449487634431 / 281474976710656))]"
    by (simp add: pipeline_eval round64_77 fdiv_20_77 [simplified] fmul_77 [simplified]
          fadd_2 [simplified])
  show "Fin (6192449487634431 / 281474976710656) \<noteq> Fin (2 + 20)"
    by simp
  show "processLayerBuildings
        [\<lparr> geometry = Polygon [replicate 501 (0, 0)], tags = [''height'' \<mapsto> TagString ''77''] \<rparr>]
        (10, 10, 0, 0)
        \<lparr> targetSize = 180, maxHeight = 20, defaultHeight = 10, baseThickness = 2 \<rparr>
      = Inr []"
    by (simp add: processLayerBuildings_def buildingStep_def)
  show "processLayerBuildings
        [\<lparr> geometry = Polygon [[]], tags = [''height'' \<mapsto> TagString ''77''] \<rparr>]
        (10, 10, 0, 0)
        \<lparr> targetSize = 180, maxHeight = 20, defaultHeight = 10, baseThickness = 2 \<rparr>
      = Inl TypeError"
    by (simp add: processLayerBuildings_def buildingStep_def)
qed

section \<open>Verification: STL serializer\<close>

subsection \<open>Number formatting\<close>

lemma decimal_digit: "n < 10 \<Longrightarrow> decimal n = [digitChar n]"
  by (simp add: decimal.simps)

lemma decimal_step: "\<not> n < 10 \<Longrightarrow> decimal n = decimal (n div 10) @ [digitChar (n mod 10)]"
  by (subst decimal.simps) simp



lemma decimal_nonempty: "decimal n \<noteq> []"
  by (cases "n < 10") (simp_all add: decimal_digit decimal_step)



subsection \<open>The name of the solid\<close>




subsection \<open>Normals\<close>




subsection \<open>The text\<close>

lemma facet_in_range:
  assumes "length f = 3" and "\<forall>i \<in> set f. 0 \<le> i \<and> i < int (length vs)"
  shows "facet numberToString vs f =
           Inr (facetLines (toFixed6 numberToString)
                  (faceNormal (vs ! nat (f ! 0)) (vs ! nat (f ! 1)) (vs ! nat (f ! 2)))
                  (vs ! nat (f ! 0)) (vs ! nat (f ! 1)) (vs ! nat (f ! 2)))"
proof -
  from assms(1) have "f ! 0 \<in> set f" "f ! 1 \<in> set f" "f ! 2 \<in> set f"
    by simp_all
  with assms(2) have "vertexAt vs (f ! 0) = Some (vs ! nat (f ! 0))"
    "vertexAt vs (f ! 1) = Some (vs ! nat (f ! 1))"
    "vertexAt vs (f ! 2) = Some (vs ! nat (f ! 2))"
    by (simp_all add: vertexAt_def)
  with assms(1) show ?thesis
    by (simp add: facet_def)
qed







section \<open>Verification: mesh validator\<close>

lemma concat_singletons_nonempty:
  "concat (map (\<lambda>v. if P v then [h v] else []) xs) \<noteq> [] \<longleftrightarrow> (\<exists>v \<in> set xs. P v)"
  by (induction xs) auto

lemma faceErrors_nonempty:
  "faceErrors vs idx f \<noteq> [] \<longleftrightarrow>
     length f \<noteq> 3 \<or> (\<exists>i \<in> set f. i < 0 \<or> \<not> i < int (length vs))"
proof -
  have "(\<exists>i \<in> set f. i < 0 \<or> int (length vs) \<le> i) \<longleftrightarrow> (\<exists>i \<in> set f. i < 0 \<or> \<not> i < int (length vs))"
    by (simp add: not_less)
  then show ?thesis
    unfolding faceErrors_def by (simp add: concat_singletons_nonempty del: concat_eq_Nil_conv)
qed

lemma facet_skip_or_lines:
  assumes "length f = 3 \<longrightarrow> (\<forall>i \<in> set f. 0 \<le> i \<and> i < int (length vs))"
  shows "facet numberToString vs f =
           Inr (if length f = 3
                then facetLines (toFixed6 numberToString)
                       (faceNormal (vs ! nat (f ! 0)) (vs ! nat (f ! 1)) (vs ! nat (f ! 2)))
                       (vs ! nat (f ! 0)) (vs ! nat (f ! 1)) (vs ! nat (f ! 2))
                else [])"
proof (cases "length f = 3")
  case True
  with assms facet_in_range [of f vs numberToString] show ?thesis by simp
next
  case False
  then show ?thesis by (simp add: facet_def)
qed

lemma facets_skip_or_lines:
  assumes "\<forall>f \<in> set fs. length f = 3 \<longrightarrow> (\<forall>i \<in> set f. 0 \<le> i \<and> i < int (length vs))"
  shows "facets numberToString vs fs stlContent =
           Inr (stlContent @ concat (map (\<lambda>f.
                  if length f = 3
                  then facetLines (toFixed6 numberToString)
                         (faceNormal (vs ! nat (f ! 0)) (vs ! nat (f ! 1)) (vs ! nat (f ! 2)))
                         (vs ! nat (f ! 0)) (vs ! nat (f ! 1)) (vs ! nat (f ! 2))
                  else []) fs))"
  using assms
proof (induction fs arbitrary: stlContent)
  case Nil
  then show ?case by simp
next
  case (Cons f fs)
  from Cons.prems have f: "length f = 3 \<longrightarrow> (\<forall>i \<in> set f. 0 \<le> i \<and> i < int (length vs))"
    and rest: "\<forall>f \<in> set fs. length f = 3 \<longrightarrow> (\<forall>i \<in> set f. 0 \<le> i \<and> i < int (length vs))"
    by simp_all
  show ?case
    by (simp add: facet_skip_or_lines [OF f] Cons.IH [OF rest])
qed

text \<open>
  C9 (as amended).  \<open>validateMesh\<close> returns a non-empty error list exactly when the vertex
  list is empty, or the face list is empty, or some face does not have exactly three
  indices, or some index of a face is negative or not less than the vertex count; \<open>valid\<close>
  says whether the list is empty.  A failing validation does not by itself block the
  output: the application's wrapper writes one warning with the errors and returns what
  the serializer returns.  Whenever every face with exactly three indices refers to
  positions of the vertex list, that is the text: the \<open>solid\<close> line, the seven lines of
  each face with three indices, in order, and the \<open>endsolid\<close> line.
\<close>

theorem validateMesh_advisory:
  "(errors (validateMesh vs fs) \<noteq> [] \<longleftrightarrow>
      vs = [] \<or> fs = [] \<or> (\<exists>f \<in> set fs. length f \<noteq> 3)
      \<or> (\<exists>f \<in> set fs. \<exists>i \<in> set f. i < 0 \<or> \<not> i < int (length vs)))
   \<and> (valid (validateMesh vs fs) \<longleftrightarrow> errors (validateMesh vs fs) = [])
   \<and> fst (pipelineGenerateSTL numberToString vs fs filename)
        = (if errors (validateMesh vs fs) \<noteq> [] then [errors (validateMesh vs fs)] else [])
   \<and> snd (pipelineGenerateSTL numberToString vs fs filename)
        = generateSTL numberToString vs fs filename
   \<and> ((\<forall>f \<in> set fs. length f = 3 \<longrightarrow> (\<forall>i \<in> set f. 0 \<le> i \<and> i < int (length vs))) \<longrightarrow>
        snd (pipelineGenerateSTL numberToString vs fs filename)
          = Inr (''solid '' @ replaceFirst ''.stl'' '''' filename @ [CHR 0x0A]
                 @ concat (map (\<lambda>f.
                     if length f = 3
                     then facetLines (toFixed6 numberToString)
                            (faceNormal (vs ! nat (f ! 0)) (vs ! nat (f ! 1)) (vs ! nat (f ! 2)))
                            (vs ! nat (f ! 0)) (vs ! nat (f ! 1)) (vs ! nat (f ! 2))
                     else []) fs)
                 @ ''endsolid '' @ replaceFirst ''.stl'' '''' filename @ [CHR 0x0A]))"
proof -
  have "(\<exists>idx < length fs. faceErrors vs idx (fs ! idx) \<noteq> []) \<longleftrightarrow>
        (\<exists>f \<in> set fs. length f \<noteq> 3 \<or> (\<exists>i \<in> set f. i < 0 \<or> \<not> i < int (length vs)))"
    unfolding faceErrors_nonempty by (metis in_set_conv_nth)
  then have 1: "errors (validateMesh vs fs) \<noteq> [] \<longleftrightarrow>
      vs = [] \<or> fs = [] \<or> (\<exists>f \<in> set fs. length f \<noteq> 3)
      \<or> (\<exists>f \<in> set fs. \<exists>i \<in> set f. i < 0 \<or> \<not> i < int (length vs))"
    by (auto simp: validateMesh_def Let_def)
  have 2: "valid (validateMesh vs fs) \<longleftrightarrow> errors (validateMesh vs fs) = []"
    by (simp add: validateMesh_def Let_def)
  have 3: "snd (pipelineGenerateSTL numberToString vs fs filename)
        = generateSTL numberToString vs fs filename"
    by (simp add: pipelineGenerateSTL_def Let_def)
  have 4: "fst (pipelineGenerateSTL numberToString vs fs filename)
        = (if errors (validateMesh vs fs) \<noteq> [] then [errors (validateMesh vs fs)] else [])"
    using 2 by (simp add: pipelineGenerateSTL_def Let_def)
  have 5: "snd (pipelineGenerateSTL numberToString vs fs filename)
          = Inr (''solid '' @ replaceFirst ''.stl'' '''' filename @ [CHR 0x0A]
                 @ concat (map (\<lambda>f.
                     if length f = 3
                     then facetLines (toFixed6 numberToString)
                            (faceNormal (vs ! nat (f ! 0)) (vs ! nat (f ! 1)) (vs ! nat (f ! 2)))
                            (vs ! nat (f ! 0)) (vs ! nat (f ! 1)) (vs ! nat (f ! 2))
                     else []) fs)
                 @ ''endsolid '' @ replaceFirst ''.stl'' '''' filename @ [CHR 0x0A])"
    if "\<forall>f \<in> set fs. length f = 3 \<longrightarrow> (\<forall>i \<in> set f. 0 \<le> i \<and> i < int (length vs))"
    unfolding 3 by (simp add: generateSTL_def facets_skip_or_lines [OF that])
  from 1 2 3 4 5 show ?thesis by blast
qed

text \<open>
  A mesh whose only face has two indices: the validation fails, the warning is written
  and the text of an empty solid is returned.
\<close>

theorem validateMesh_advisory_witness:
  "errors (validateMesh [(0, 0, 0), (1, 0, 0), (0, 1, 0)] [[0, 1]]) = [FaceArity 0 2]
   \<and> pipelineGenerateSTL (\<lambda>x. ''1e+21'') [(0, 0, 0), (1, 0, 0), (0, 1, 0)] [[0, 1]] ''test.stl''
       = ([[FaceArity 0 2]], Inr (''solid test'' @ [CHR 0x0A] @ ''endsolid test'' @ [CHR 0x0A]))"
proof -
  let ?vs = "[(0, 0, 0), (1, 0, 0), (0, 1, 0)] :: vertex list"
  have e: "errors (validateMesh ?vs [[0, 1]]) = [FaceArity 0 2]"
    by (simp add: validateMesh_def faceErrors_def Let_def)
  have inr: "\<forall>f \<in> set [[0, 1]]. length f = 3 \<longrightarrow> (\<forall>i \<in> set f. 0 \<le> i \<and> i < int (length ?vs))"
    by simp
  note adv = validateMesh_advisory [of ?vs "[[0, 1]]" "\<lambda>x. ''1e+21''" "''test.stl''"]
  from adv have w: "fst (pipelineGenerateSTL (\<lambda>x. ''1e+21'') ?vs [[0, 1]] ''test.stl'')
        = (if errors (validateMesh ?vs [[0, 1]]) \<noteq> [] then [errors (validateMesh ?vs [[0, 1]])] else [])"
    by (elim conjE)
  from adv have "(\<forall>f \<in> set [[0, 1]]. length f = 3 \<longrightarrow> (\<forall>i \<in> set f. 0 \<le> i \<and> i < int (length ?vs))) \<longrightarrow>
        snd (pipelineGenerateSTL (\<lambda>x. ''1e+21'') ?vs [[0, 1]] ''test.stl'')
          = Inr (''solid '' @ replaceFirst ''.stl'' '''' ''test.stl'' @ [CHR 0x0A]
                 @ concat (map (\<lambda>f.
                     if length f = 3
                     then facetLines (toFixed6 (\<lambda>x. ''1e+21''))
                            (faceNormal (?vs ! nat (f ! 0)) (?vs ! nat (f ! 1)) (?vs ! nat (f ! 2)))
                            (?vs ! nat (f ! 0)) (?vs ! nat (f ! 1)) (?vs ! nat (f ! 2))
                     else []) [[0, 1]])
                 @ ''endsolid '' @ replaceFirst ''.stl'' '''' ''test.stl'' @ [CHR 0x0A])"
    by (elim conjE)
  from this [THEN mp, OF inr]
  have t: "snd (pipelineGenerateSTL (\<lambda>x. ''1e+21'') ?vs [[0, 1]] ''test.stl'')
      = Inr (''solid test'' @ [CHR 0x0A] @ ''endsolid test'' @ [CHR 0x0A])"
    by simp
  from w have "fst (pipelineGenerateSTL (\<lambda>x. ''1e+21'') ?vs [[0, 1]] ''test.stl'') = [[FaceArity 0 2]]"
    by (simp add: e)
  with t e show ?thesis
    by (simp add: prod_eq_iff)
qed

text \<open>
  A face with an index past the vertex list is one of the listed causes of a failing
  validation.  The wrapper writes the warning, and the serializer, called without any
  \<open>try\<close>, throws: no text is returned.
\<close>

theorem validateMesh_index_error_counterexample:
  "errors (validateMesh [(0, 0, 0), (1, 0, 0), (0, 1, 0)] [[0, 1, 3]]) = [InvalidIndex 0 3]
   \<and> pipelineGenerateSTL (\<lambda>x. ''1e+21'') [(0, 0, 0), (1, 0, 0), (0, 1, 0)] [[0, 1, 3]] ''test.stl''
       = ([[InvalidIndex 0 3]], Inl TypeError)"
  by (simp add: pipelineGenerateSTL_def validateMesh_def faceErrors_def generateSTL_def
        facet_def vertexAt_def Let_def)


end
